theory Spec2Isabelle
  imports Main
begin

section \<open>Go strings, as far as \<open>nodes/node.go\<close> uses them\<close>

text \<open>
  A Go \<open>string\<close> is a sequence of bytes; so is a HOL \<open>string\<close>. The functions of the
  standard packages \<open>strings\<close>, \<open>fmt\<close> and \<open>path/filepath\<close> that the source calls are
  written out here on bytes.
\<close>

text \<open>
  \<open>strings.Split(s, sep)\<close> for a separator of one byte (the source splits at \<open>"\n"\<close>):
  the pieces between the separators, so one piece more than there are separators, and
  one empty piece for the empty string.
\<close>

fun strings_Split :: "string \<Rightarrow> char \<Rightarrow> string list" where
  "strings_Split [] sep = [[]]"
| "strings_Split (c # s) sep =
     (if c = sep then [] # strings_Split s sep
      else (case strings_Split s sep of
              [] \<Rightarrow> [[c]]
            | piece # pieces \<Rightarrow> (c # piece) # pieces))"

text \<open>\<open>strings.Join(elems, sep)\<close>.\<close>

fun strings_Join :: "string list \<Rightarrow> string \<Rightarrow> string" where
  "strings_Join [] sep = []"
| "strings_Join [e] sep = e"
| "strings_Join (e # es) sep = e @ sep @ strings_Join es sep"

text \<open>\<open>strings.HasPrefix(s, prefix)\<close>.\<close>

definition strings_HasPrefix :: "string \<Rightarrow> string \<Rightarrow> bool" where
  "strings_HasPrefix s pre = (take (length pre) s = pre)"

text \<open>
  \<open>unicode.IsSpace\<close>, read off the UTF-8 bytes at the head of a string: the width in
  bytes of the white-space rune that starts there, and 0 when none does. The white-space
  runes are U+0009..U+000D, U+0020, U+0085, U+00A0, U+1680, U+2000..U+200A, U+2028,
  U+2029, U+202F, U+205F and U+3000. Every multi-byte one starts with a lead byte and a
  continuation byte never starts one, so looking at each byte position in turn finds
  the same separators as decoding rune by rune.
\<close>

definition asciiSpace :: "char \<Rightarrow> bool" where
  "asciiSpace c = (c = CHR 0x09 \<or> c = CHR 0x0A \<or> c = CHR 0x0B \<or> c = CHR 0x0C
                   \<or> c = CHR 0x0D \<or> c = CHR 0x20)"

definition space_width :: "string \<Rightarrow> nat" where
  "space_width s =
     (case s of
        [] \<Rightarrow> 0
      | c # r \<Rightarrow>
          if asciiSpace c then 1
          else if c = CHR 0xC2 then
            (case r of
               [] \<Rightarrow> 0
             | d # _ \<Rightarrow> if d = CHR 0x85 \<or> d = CHR 0xA0 then 2 else 0)
          else if c = CHR 0xE1 then
            (if strings_HasPrefix r [CHR 0x9A, CHR 0x80] then 3 else 0)
          else if c = CHR 0xE2 then
            (case r of
               d # e # _ \<Rightarrow>
                 if d = CHR 0x80 \<and>
                    (((0x80 :: nat) \<le> of_char e \<and> (of_char e :: nat) \<le> 0x8A)
                     \<or> e = CHR 0xA8 \<or> e = CHR 0xA9 \<or> e = CHR 0xAF) then 3
                 else if d = CHR 0x81 \<and> e = CHR 0x9F then 3
                 else 0
             | _ \<Rightarrow> 0)
          else if c = CHR 0xE3 then
            (if strings_HasPrefix r [CHR 0x80, CHR 0x80] then 3 else 0)
          else 0)"

text \<open>
  \<open>strings.Fields(s)\<close>: the maximal runs of bytes between white space. \<open>cur\<close> is the
  field being read; it is emitted, when it is not empty, at white space and at the end.
\<close>

function fields_from :: "string \<Rightarrow> string \<Rightarrow> string list" where
  "fields_from cur [] = (if cur = [] then [] else [cur])"
| "fields_from cur (c # s) =
     (if 0 < space_width (c # s)
      then (if cur = [] then [] else [cur]) @ fields_from [] (drop (space_width (c # s) - 1) s)
      else fields_from (cur @ [c]) s)"
  by pat_completeness auto
termination
  by (relation "measure (\<lambda>(cur, s). length s)") auto

definition strings_Fields :: "string \<Rightarrow> string list" where
  "strings_Fields s = fields_from [] s"

text \<open>
  \<open>strings.Index(s, substr)\<close>: the index of the first occurrence of \<open>substr\<close> in
  \<open>s\<close>, and \<open>-1\<close> when there is none.
\<close>

fun strings_Index :: "string \<Rightarrow> string \<Rightarrow> int" where
  "strings_Index [] sub = (if sub = [] then 0 else -1)"
| "strings_Index (c # s) sub =
     (if strings_HasPrefix (c # s) sub then 0
      else (let i = strings_Index s sub in if i = -1 then -1 else i + 1))"

text \<open>
  \<open>fmt.Sprintf(format, args...)\<close> for the formats of the source: literal text and the
  verbs \<open>%s\<close>, \<open>%v\<close> and \<open>%w\<close>, each of which prints the next argument, here already
  a string (for an error, its \<open>Error()\<close> text). A verb with no argument left prints
  \<open>%!v(MISSING)\<close>; \<open>%%\<close> prints a percent sign. The source uses no other verb.
\<close>

fun Sprintf :: "string \<Rightarrow> string list \<Rightarrow> string" where
  "Sprintf [] args = []"
| "Sprintf [c] args = [c]"
| "Sprintf (c # v # rest) args =
     (if c = CHR ''%'' \<and> (v = CHR ''s'' \<or> v = CHR ''v'' \<or> v = CHR ''w'') then
        (case args of
           [] \<Rightarrow> ''%!'' @ [v] @ ''(MISSING)'' @ Sprintf rest []
         | a # as \<Rightarrow> a @ Sprintf rest as)
      else if c = CHR ''%'' \<and> v = CHR ''%'' then CHR ''%'' # Sprintf rest args
      else c # Sprintf (v # rest) args)"

section \<open>Go errors\<close>

text \<open>
  An error value is what \<open>errors.New\<close> (or \<open>fmt.Errorf\<close> without \<open>%w\<close>) makes
  from a text, what \<open>errors.Wrap\<close> of \<open>github.com/pkg/errors\<close> makes from a cause and
  a message, or what \<open>fmt.Errorf\<close> with one \<open>%w\<close> makes from the formatted text and
  the wrapped error. Go's \<open>error\<close> interface adds \<open>nil\<close>: it is \<open>error option\<close>
  here, \<open>None\<close> for \<open>nil\<close>.
\<close>

datatype error =
    ErrorString string
  | Wrapped error string
  | WrapError string error

fun Error :: "error \<Rightarrow> string" where
  "Error (ErrorString s) = s"
| "Error (Wrapped cause msg) = msg @ '': '' @ Error cause"
| "Error (WrapError msg err) = msg"

text \<open>\<open>errors.Wrap(err, message)\<close>: \<open>nil\<close> for a \<open>nil\<close> error.\<close>

fun errors_Wrap :: "error option \<Rightarrow> string \<Rightarrow> error option" where
  "errors_Wrap None message = None"
| "errors_Wrap (Some err) message = Some (Wrapped err message)"

text \<open>\<open>errors.Wrapf(err, format, args...)\<close>.\<close>

definition errors_Wrapf :: "error option \<Rightarrow> string \<Rightarrow> string list \<Rightarrow> error option" where
  "errors_Wrapf err format args = errors_Wrap err (Sprintf format args)"

text \<open>\<open>fmt.Errorf(format, err)\<close> where the format ends in \<open>%w\<close> and \<open>err\<close> is not \<open>nil\<close>.\<close>

definition fmt_Errorf_w :: "string \<Rightarrow> error \<Rightarrow> error" where
  "fmt_Errorf_w format err = WrapError (Sprintf format [Error err]) err"

text \<open>\<open>fmt.Errorf(text)\<close> with no verb and no argument.\<close>

definition fmt_Errorf :: "string \<Rightarrow> error" where
  "fmt_Errorf format = ErrorString (Sprintf format [])"

text \<open>
  \<open>errors.Is(err, target)\<close> for a target that is not \<open>nil\<close>: false for a \<open>nil\<close>
  error, and otherwise whether \<open>target\<close> is found on the chain of wrapped errors.
  Go compares with \<open>==\<close>, which for these pointer-typed errors is identity; the
  comparison here is by structure, which finds the target whenever Go does.
\<close>

fun on_chain :: "error \<Rightarrow> error \<Rightarrow> bool" where
  "on_chain (ErrorString s) target = (ErrorString s = target)"
| "on_chain (Wrapped cause msg) target = (Wrapped cause msg = target \<or> on_chain cause target)"
| "on_chain (WrapError msg err) target = (WrapError msg err = target \<or> on_chain err target)"

fun errors_Is :: "error option \<Rightarrow> error \<Rightarrow> bool" where
  "errors_Is None target = False"
| "errors_Is (Some err) target = on_chain err target"

section \<open>The block device locator\<close>

text \<open>
  The loop of \<open>ExtractLastVolumeName\<close> over the lines: \<open>lastVolumeName\<close> is the
  variable the loop assigns.
\<close>

fun scan_lines :: "string list \<Rightarrow> string \<Rightarrow> string" where
  "scan_lines [] lastVolumeName = lastVolumeName"
| "scan_lines (line # lines) lastVolumeName =
     (let fields = strings_Fields line in
      if length fields > 2 \<and> fields ! 2 = ''disk''
      then scan_lines lines (fields ! 0)
      else scan_lines lines lastVolumeName)"

definition ExtractLastVolumeName :: "string \<Rightarrow> error + string" where
  "ExtractLastVolumeName lsblkOutput =
     (let lines = strings_Split lsblkOutput (CHR 0x0A);
          lastVolumeName = scan_lines lines []
      in if lastVolumeName = []
         then Inl (fmt_Errorf ''no disk volume found in lsblk output'')
         else Inr lastVolumeName)"

text \<open>
  The specification's words for the locator: a line is a disk line when it has at least
  three fields and the third is \<open>disk\<close>.
\<close>

definition disk_line :: "string \<Rightarrow> bool" where
  "disk_line line = (length (strings_Fields line) > 2 \<and> strings_Fields line ! 2 = ''disk'')"

definition disk_lines :: "string \<Rightarrow> string list" where
  "disk_lines text = filter disk_line (strings_Split text (CHR 0x0A))"

section \<open>\<open>path/filepath\<close> on a Unix host\<close>

text \<open>
  \<open>filepath.Base(path)\<close>: the last element of the path, after removing trailing
  slashes; \<open>.\<close> for the empty path and \<open>/\<close> for a path of slashes only.
\<close>

definition filepath_Base :: "string \<Rightarrow> string" where
  "filepath_Base path =
     (if path = [] then ''.''
      else
        let stripped = rev (dropWhile (\<lambda>c. c = CHR ''/'') (rev path));
            elem = rev (takeWhile (\<lambda>c. c \<noteq> CHR ''/'') (rev stripped))
        in if elem = [] then ''/'' else elem)"

text \<open>
  \<open>filepath.Clean(path)\<close>, by its documented rules: empty and \<open>.\<close> elements are
  dropped, a \<open>..\<close> removes the element before it, a \<open>..\<close> with nothing to remove is
  dropped in a rooted path and kept otherwise, and the empty result is \<open>.\<close>.
  \<open>stack\<close> holds the elements kept so far.
\<close>

fun clean_elems :: "bool \<Rightarrow> string list \<Rightarrow> string list \<Rightarrow> string list" where
  "clean_elems rooted stack [] = stack"
| "clean_elems rooted stack (e # es) =
     (if e = [] \<or> e = ''.'' then clean_elems rooted stack es
      else if e = ''..'' then
        (if stack \<noteq> [] \<and> last stack \<noteq> ''..'' then clean_elems rooted (butlast stack) es
         else if rooted then clean_elems rooted stack es
         else clean_elems rooted (stack @ [e]) es)
      else clean_elems rooted (stack @ [e]) es)"

definition filepath_Clean :: "string \<Rightarrow> string" where
  "filepath_Clean path =
     (let rooted = strings_HasPrefix path ''/'';
          out = (if rooted then ''/'' else []) @
                strings_Join (clean_elems rooted [] (strings_Split path (CHR ''/''))) ''/''
      in if out = [] then ''.'' else out)"

text \<open>
  \<open>filepath.Join(elem...)\<close>: the elements from the first non-empty one on, joined
  with slashes and cleaned; the empty string when all are empty.
\<close>

definition filepath_Join :: "string list \<Rightarrow> string" where
  "filepath_Join elem =
     (case dropWhile (\<lambda>e. e = []) elem of
        [] \<Rightarrow> []
      | e # es \<Rightarrow> filepath_Clean (strings_Join (e # es) ''/''))"

section \<open>The remote command channel\<close>

text \<open>
  The channel (\<open>ssh.Client\<close>) is an external collaborator: the source only calls it.
  A call is one of the methods the source uses, with its arguments. What the remote
  host answers may depend on everything done before, so a channel is a function of
  the events so far and the call; it answers with an error or with the output (for a
  method that returns only an error, the output is not looked at). The events are the
  remote calls and the pauses (\<open>time.Sleep\<close>, in seconds), in the order in which the
  program made them. Log lines are not events: they do not take part in any result.
\<close>

type_synonym Command = string

datatype call =
    ExecuteCommand Command
  | InstallPackages "string list"
  | UninstallPackages "string list"
  | SecureUpload string string
  | InstallPackageAt string
  | RemoveFile string
  | RemoveDirectory string

datatype event = Remote call | Sleep nat

type_synonym trace = "event list"

type_synonym channel = "trace \<Rightarrow> call \<Rightarrow> error + string"

text \<open>
  The client: the channel, and \<open>Platform.Dependencies()\<close>, the package names of the
  platform's dependencies.
\<close>

record Client =
  remote :: channel
  Dependencies :: "string list"

text \<open>
  Package \<open>value\<close> is not among the sources. \<open>Command\<close> is a string type there (the
  source converts strings to it); what \<open>value.NewCommand(format, args...)\<close> returns
  and the constant \<open>value.CBInstallDirectory\<close> are parameters of the model.
\<close>

record value_pkg =
  NewCommand :: "string \<Rightarrow> string list \<Rightarrow> Command"
  CBInstallDirectory :: string

record NodeBlueprint =
  Host :: string
  DataPath :: string
  IndexPath :: string

record Node =
  blueprint :: NodeBlueprint
  client :: Client

text \<open>A call whose output is used, and a call of which only the error is used.\<close>

definition invoke :: "Client \<Rightarrow> call \<Rightarrow> trace \<Rightarrow> (error + string) \<times> trace" where
  "invoke cl c tr = (remote cl tr c, tr @ [Remote c])"

definition invoke_err :: "Client \<Rightarrow> call \<Rightarrow> trace \<Rightarrow> error option \<times> trace" where
  "invoke_err cl c tr =
     ((case remote cl tr c of Inl err \<Rightarrow> Some err | Inr output \<Rightarrow> None), tr @ [Remote c])"

text \<open>
  \<open>log.Fatalf\<close> writes the message and ends the process with \<open>os.Exit(1)\<close>: a
  function that can call it either returns or exits.
\<close>

datatype 'a outcome = Returned 'a | Exited string

definition log_Fatalf :: "string \<Rightarrow> string list \<Rightarrow> 'a outcome" where
  "log_Fatalf format args = Exited (Sprintf format args)"

section \<open>The operations of a node\<close>

text \<open>
  Each operation takes the events so far and returns its result with the events
  extended by what it did. An \<open>error\<close> result is \<open>None\<close> for \<open>nil\<close>.
\<close>

definition installDeps :: "Node \<Rightarrow> trace \<Rightarrow> error option \<times> trace" where
  "installDeps n tr = invoke_err (client n) (InstallPackages (Dependencies (client n))) tr"

definition uninstallCB :: "value_pkg \<Rightarrow> Node \<Rightarrow> trace \<Rightarrow> error option \<times> trace" where
  "uninstallCB v n tr =
     (let (err, tr1) = invoke_err (client n) (UninstallPackages [''couchbase-server'']) tr in
      if err \<noteq> None
      then (errors_Wrap err (''failed to uninstall 'couchbase-server'' @ [CHR 0x27]), tr1)
      else
        let (err, tr2) = invoke_err (client n) (RemoveDirectory (CBInstallDirectory v)) tr1 in
        if err \<noteq> None
        then (errors_Wrapf err (''failed to cleanup install directory at '%s'' @ [CHR 0x27])
                [CBInstallDirectory v], tr2)
        else (None, tr2))"

text \<open>
  The \<open>switch\<close> of \<open>installCB\<close> is kept in the order of the source: the case
  \<open>err != nil\<close> first, the case \<open>errors.Is(err, fmt.Errorf("File already exists"))\<close>
  second.
\<close>

definition installCB :: "Node \<Rightarrow> string \<Rightarrow> trace \<Rightarrow> error option \<times> trace" where
  "installCB n localPath tr =
     (let remotePath = filepath_Join [''/home/ec2-user'', filepath_Base localPath];
          (err, tr1) = invoke_err (client n) (SecureUpload localPath remotePath) tr
      in
        if err \<noteq> None then (errors_Wrap err ''failed to upload package archive'', tr1)
        else if errors_Is err (fmt_Errorf ''File already exists'') then (None, tr1)
        else
          let (err, tr2) = invoke_err (client n) (InstallPackageAt remotePath) tr1 in
          if err \<noteq> None
          then (errors_Wrap err (''failed to install 'couchbase-server'' @ [CHR 0x27]), tr2)
          else
            let (err, tr3) = invoke_err (client n) (RemoveFile remotePath) tr2 in
            if err \<noteq> None then (errors_Wrap err ''failed to remove package archive'', tr3)
            else (None, tr3))"

definition giveCBPermissions :: "value_pkg \<Rightarrow> Node \<Rightarrow> trace \<Rightarrow> error option \<times> trace" where
  "giveCBPermissions v n tr =
     (let changePermissions = ''sudo chown -R couchbase:couchbase /mnt'';
          (err, tr1) =
            invoke_err (client n) (ExecuteCommand (NewCommand v changePermissions [])) tr
      in case err of
           Some e \<Rightarrow> (Some (fmt_Errorf_w ''failed to change permissions on /mnt: %w'' e), tr1)
         | None \<Rightarrow> (None, tr1))"

definition provision :: "value_pkg \<Rightarrow> Node \<Rightarrow> string \<Rightarrow> trace \<Rightarrow> error option \<times> trace" where
  "provision v n packagePath tr =
     (let (err, tr1) = installDeps n tr in
      if err \<noteq> None then (errors_Wrap err ''failed to install dependencies'', tr1)
      else
        let (err, tr2) = uninstallCB v n tr1 in
        if err \<noteq> None then (errors_Wrap err ''failed to uninstall Couchbase Server'', tr2)
        else
          let (err, tr3) = installCB n packagePath tr2 in
          if err \<noteq> None then (errors_Wrap err ''failed to install Couchbase Server'', tr3)
          else
            let tr4 = tr3 @ [Sleep 30];
                (err, tr5) = giveCBPermissions v n tr4
            in
              if err \<noteq> None
              then (errors_Wrap err ''failed to give Couchbase Server permissions'', tr5)
              else (None, tr5))"

definition createDataPath :: "value_pkg \<Rightarrow> Node \<Rightarrow> trace \<Rightarrow> error option \<times> trace" where
  "createDataPath v n tr =
     (if DataPath (blueprint n) = [] then (None, tr)
      else
        let (err, tr1) =
              invoke_err (client n)
                (ExecuteCommand (NewCommand v ''mkdir -p %s'' [DataPath (blueprint n)])) tr
        in
          if err \<noteq> None then (errors_Wrap err ''failed to create remote data directory'', tr1)
          else
            let (err, tr2) =
                  invoke_err (client n)
                    (ExecuteCommand
                      (NewCommand v ''chown -R couchbase:couchbase %s'' [DataPath (blueprint n)]))
                    tr1
            in
              if err \<noteq> None then (errors_Wrap err ''failed to chown remote data directory'', tr2)
              else (None, tr2))"

definition createIndexPath :: "value_pkg \<Rightarrow> Node \<Rightarrow> trace \<Rightarrow> error option \<times> trace" where
  "createIndexPath v n tr =
     (if IndexPath (blueprint n) = [] then (None, tr)
      else
        let (err, tr1) =
              invoke_err (client n)
                (ExecuteCommand (NewCommand v ''mkdir -p %s'' [IndexPath (blueprint n)])) tr
        in
          if err \<noteq> None then (errors_Wrap err ''failed to create remote index directory'', tr1)
          else
            let (err, tr2) =
                  invoke_err (client n)
                    (ExecuteCommand
                      (NewCommand v ''chown -R couchbase:couchbase %s'' [IndexPath (blueprint n)]))
                    tr1
            in
              if err \<noteq> None then (errors_Wrap err ''failed to chown remote index directory'', tr2)
              else (None, tr2))"

text \<open>
  \<open>initializeCB\<close> builds the text \<open>init\<close> and hands it to \<open>value.NewCommand\<close> with no
  further argument; the error of the command is returned as it is.
\<close>

definition init_text :: "NodeBlueprint \<Rightarrow> string" where
  "init_text bp =
     (let init0 = ''couchbase-cli node-init -c localhost:8091 -u Administrator -p asdasd'';
          init1 = (if DataPath bp \<noteq> []
                   then init0 @ Sprintf '' --node-init-data-path %s'' [DataPath bp]
                   else init0);
          init2 = (if IndexPath bp \<noteq> []
                   then init1 @ Sprintf '' --node-init-index-path %s'' [IndexPath bp]
                   else init1)
      in init2)"

definition initializeCB :: "value_pkg \<Rightarrow> Node \<Rightarrow> trace \<Rightarrow> error option \<times> trace" where
  "initializeCB v n tr =
     invoke_err (client n) (ExecuteCommand (NewCommand v (init_text (blueprint n)) [])) tr"

text \<open>
  \<open>loginAsRoot\<close>: each check of the source that ends in \<open>log.Fatalf\<close> is an exit
  here; the last statement returns \<open>err\<close>, the error of the last command.
\<close>

definition loginAsRoot :: "Node \<Rightarrow> trace \<Rightarrow> error option outcome \<times> trace" where
  "loginAsRoot n tr =
     (let (err, tr1) = invoke_err (client n) (ExecuteCommand ''sudo -s'') tr in
      if err \<noteq> None then (log_Fatalf ''failed to become root: %v'' [Error (the err)], tr1)
      else
        let (res, tr2) =
              invoke (client n) (ExecuteCommand ''sudo cat /root/.ssh/authorized_keys'') tr1
        in case res of
             Inl e \<Rightarrow> (log_Fatalf ''failed to read authorized_keys: %v'' [Error e], tr2)
           | Inr output \<Rightarrow>
               let index = strings_Index output ''ssh-rsa'' in
               if index = -1 then (log_Fatalf ''ssh-rsa not found in authorized_keys'' [], tr2)
               else
                 let newContent = drop (nat index) output;
                     msg = Sprintf ''echo '%s' | sudo tee /root/.ssh/authorized_keys''
                             [newContent];
                     (err, tr3) = invoke_err (client n) (ExecuteCommand msg) tr2
                 in
                   if err \<noteq> None
                   then (log_Fatalf ''failed to write to authorized_keys: %v''
                           [Error (the err)], tr3)
                   else
                     let (err, tr4) =
                           invoke_err (client n)
                             (ExecuteCommand
                               ''sudo systemctl restart sshd.service || sudo systemctl restart ssh.service'')
                             tr3
                     in
                       if err \<noteq> None
                       then (log_Fatalf ''failed to restart SSH service: %v''
                               [Error (the err)], tr4)
                       else (Returned err, tr4))"

text \<open>
  \<open>checkAndPartitionEBS\<close>. The probe for the partition is the command whose failure
  starts the partitioning and whose success ends the operation.
\<close>

definition checkAndPartitionEBS :: "value_pkg \<Rightarrow> Node \<Rightarrow> trace \<Rightarrow> error option \<times> trace" where
  "checkAndPartitionEBS v n tr =
     (let checkAllVolumes = Sprintf ''lsblk -o NAME,SIZE,TYPE,MOUNTPOINT'' [];
          (res, tr1) = invoke (client n) (ExecuteCommand (NewCommand v checkAllVolumes [])) tr
      in case res of
        Inl e \<Rightarrow> (Some (fmt_Errorf_w ''failed to check for all volumes: %w'' e), tr1)
      | Inr allVolumes \<Rightarrow>
         (case ExtractLastVolumeName allVolumes of
            Inl e \<Rightarrow> (Some (fmt_Errorf_w ''failed to extract last volume name: %w'' e), tr1)
          | Inr volumeName \<Rightarrow>
             let checkVolume = Sprintf ''lsblk | grep %s'' [volumeName];
                 (err, tr2) =
                   invoke_err (client n) (ExecuteCommand (NewCommand v checkVolume [])) tr1
             in case err of
               Some e \<Rightarrow> (Some (fmt_Errorf_w ''failed to check for EBS volume: %w'' e), tr2)
             | None \<Rightarrow>
                let partitionedVolume = Sprintf ''/dev/%sp1'' [volumeName];
                    checkPartition =
                      Sprintf ''lsblk /dev/%s | grep %s'' [volumeName, partitionedVolume];
                    (err, tr3) =
                      invoke_err (client n) (ExecuteCommand (NewCommand v checkPartition [])) tr2
                in
                  if err \<noteq> None then
                    let partitionVolume = Sprintf ''echo ',,,;' | sfdisk /dev/%s'' [volumeName];
                        (err, tr4) =
                          invoke_err (client n)
                            (ExecuteCommand (NewCommand v partitionVolume [])) tr3
                    in case err of
                      Some e \<Rightarrow> (Some (fmt_Errorf_w ''failed to partition EBS volume: %w'' e), tr4)
                    | None \<Rightarrow>
                       let makeFileStructure = Sprintf ''mkfs.xfs /dev/%sp1'' [volumeName];
                           (err, tr5) =
                             invoke_err (client n)
                               (ExecuteCommand (NewCommand v makeFileStructure [])) tr4
                       in case err of
                         Some e \<Rightarrow>
                           (Some (fmt_Errorf_w ''failed to make mkfs file structure: %w'' e), tr5)
                       | None \<Rightarrow>
                          let mountVolume = Sprintf ''mount /dev/%sp1 /mnt'' [volumeName];
                              (err, tr6) =
                                invoke_err (client n)
                                  (ExecuteCommand (NewCommand v mountVolume [])) tr5
                          in case err of
                            Some e \<Rightarrow>
                              (Some (fmt_Errorf_w ''failed to mount /mnt on EBS volume: %w'' e), tr6)
                          | None \<Rightarrow>
                             let changePermissions = ''chmod 777 /mnt'';
                                 (err, tr7) =
                                   invoke_err (client n)
                                     (ExecuteCommand (NewCommand v changePermissions [])) tr6
                             in case err of
                               Some e \<Rightarrow>
                                 (Some (fmt_Errorf_w ''failed to change permissions on /mnt: %w'' e),
                                  tr7)
                             | None \<Rightarrow> (None, tr7)
                  else (None, tr3)))"

section \<open>Fail-fast sequences, in the specification's words\<close>

text \<open>
  A step is an event and the way its failure is reported. A sequence of steps is run
  in order, each step once; the first remote call that fails ends the run with its
  error as reported, and later steps are not made. A pause cannot fail.
\<close>

type_synonym step = "event \<times> (error \<Rightarrow> error)"

fun run_steps :: "Client \<Rightarrow> step list \<Rightarrow> trace \<Rightarrow> error option \<times> trace" where
  "run_steps cl [] tr = (None, tr)"
| "run_steps cl ((Sleep d, report) # steps) tr = run_steps cl steps (tr @ [Sleep d])"
| "run_steps cl ((Remote c, report) # steps) tr =
     (case remote cl tr c of
        Inl e \<Rightarrow> (Some (report e), tr @ [Remote c])
      | Inr output \<Rightarrow> run_steps cl steps (tr @ [Remote c]))"

text \<open>Whether an event, made after the events \<open>tr\<close>, succeeds; and a whole list of them.\<close>

fun succeeds :: "Client \<Rightarrow> trace \<Rightarrow> event \<Rightarrow> bool" where
  "succeeds cl tr (Sleep d) = True"
| "succeeds cl tr (Remote c) = (case remote cl tr c of Inl e \<Rightarrow> False | Inr output \<Rightarrow> True)"

fun all_succeed :: "Client \<Rightarrow> trace \<Rightarrow> event list \<Rightarrow> bool" where
  "all_succeed cl tr [] = True"
| "all_succeed cl tr (ev # evs) = (succeeds cl tr ev \<and> all_succeed cl (tr @ [ev]) evs)"

text \<open>The steps of a provisioning run, with the stage descriptions of the source.\<close>

definition remote_path :: "string \<Rightarrow> string" where
  "remote_path packagePath = filepath_Join [''/home/ec2-user'', filepath_Base packagePath]"

definition provision_steps :: "value_pkg \<Rightarrow> Node \<Rightarrow> string \<Rightarrow> step list" where
  "provision_steps v n packagePath =
     [(Remote (InstallPackages (Dependencies (client n))),
         \<lambda>e. Wrapped e ''failed to install dependencies''),
      (Remote (UninstallPackages [''couchbase-server'']),
         \<lambda>e. Wrapped (Wrapped e (''failed to uninstall 'couchbase-server'' @ [CHR 0x27]))
                ''failed to uninstall Couchbase Server''),
      (Remote (RemoveDirectory (CBInstallDirectory v)),
         \<lambda>e. Wrapped (Wrapped e (''failed to cleanup install directory at ''
                                   @ [CHR 0x27] @ CBInstallDirectory v @ [CHR 0x27]))
                ''failed to uninstall Couchbase Server''),
      (Remote (SecureUpload packagePath (remote_path packagePath)),
         \<lambda>e. Wrapped (Wrapped e ''failed to upload package archive'')
                ''failed to install Couchbase Server''),
      (Remote (InstallPackageAt (remote_path packagePath)),
         \<lambda>e. Wrapped (Wrapped e (''failed to install 'couchbase-server'' @ [CHR 0x27]))
                ''failed to install Couchbase Server''),
      (Remote (RemoveFile (remote_path packagePath)),
         \<lambda>e. Wrapped (Wrapped e ''failed to remove package archive'')
                ''failed to install Couchbase Server''),
      (Sleep 30, \<lambda>e. e),
      (Remote (ExecuteCommand (NewCommand v ''sudo chown -R couchbase:couchbase /mnt'' [])),
         \<lambda>e. Wrapped (WrapError (''failed to change permissions on /mnt: '' @ Error e) e)
                ''failed to give Couchbase Server permissions'')]"

text \<open>
  The commands of the partitioning sequencer for a volume name, and the steps that
  follow a failed probe.
\<close>

definition cmd_list_volumes :: "value_pkg \<Rightarrow> Command" where
  "cmd_list_volumes v = NewCommand v ''lsblk -o NAME,SIZE,TYPE,MOUNTPOINT'' []"

definition cmd_check_volume :: "value_pkg \<Rightarrow> string \<Rightarrow> Command" where
  "cmd_check_volume v name = NewCommand v (''lsblk | grep '' @ name) []"

definition cmd_probe_partition :: "value_pkg \<Rightarrow> string \<Rightarrow> Command" where
  "cmd_probe_partition v name =
     NewCommand v (''lsblk /dev/'' @ name @ '' | grep /dev/'' @ name @ ''p1'') []"

definition partition_steps :: "value_pkg \<Rightarrow> string \<Rightarrow> step list" where
  "partition_steps v name =
     [(Remote (ExecuteCommand (NewCommand v (''echo ',,,;' | sfdisk /dev/'' @ name) [])),
         \<lambda>e. WrapError (''failed to partition EBS volume: '' @ Error e) e),
      (Remote (ExecuteCommand (NewCommand v (''mkfs.xfs /dev/'' @ name @ ''p1'') [])),
         \<lambda>e. WrapError (''failed to make mkfs file structure: '' @ Error e) e),
      (Remote (ExecuteCommand (NewCommand v (''mount /dev/'' @ name @ ''p1 /mnt'') [])),
         \<lambda>e. WrapError (''failed to mount /mnt on EBS volume: '' @ Error e) e),
      (Remote (ExecuteCommand (NewCommand v ''chmod 777 /mnt'' [])),
         \<lambda>e. WrapError (''failed to change permissions on /mnt: '' @ Error e) e)]"

text \<open>
  A stage is a sequence of steps whose reported errors are wrapped once more, with the
  description of the stage.
\<close>

definition stage :: "string \<Rightarrow> step list \<Rightarrow> step list" where
  "stage msg steps = map (\<lambda>(ev, report). (ev, \<lambda>e. Wrapped (report e) msg)) steps"

section \<open>Concrete hosts\<close>

text \<open>
  A host that answers the calls listed in a table as the table says and every other
  call with success and no output; a \<open>value\<close> package whose \<open>NewCommand\<close> formats
  like \<open>fmt.Sprintf\<close>; and a node on a given channel with given paths.
\<close>

definition scripted :: "(call \<times> (error + string)) list \<Rightarrow> channel" where
  "scripted answers tr c = (case map_of answers c of Some r \<Rightarrow> r | None \<Rightarrow> Inr [])"

definition value_Sprintf :: value_pkg where
  "value_Sprintf = \<lparr>NewCommand = Sprintf, CBInstallDirectory = ''/opt/couchbase''\<rparr>"

definition node_on :: "channel \<Rightarrow> string \<Rightarrow> string \<Rightarrow> Node" where
  "node_on ch dataPath indexPath =
     \<lparr>blueprint = \<lparr>Host = ''10.0.0.7'', DataPath = dataPath, IndexPath = indexPath\<rparr>,
      client = \<lparr>remote = ch, Dependencies = [''openssl'', ''ncurses-compat-libs'']\<rparr>\<rparr>"

definition uninstall_fails :: channel where
  "uninstall_fails =
     scripted [(UninstallPackages [''couchbase-server''], Inl (ErrorString ''exit status 1''))]"

definition remove_fails :: channel where
  "remove_fails =
     scripted [(RemoveFile ''/home/ec2-user/cb.rpm'', Inl (ErrorString ''permission denied''))]"

definition archive_present :: channel where
  "archive_present =
     scripted [(SecureUpload ''pkgs/cb.rpm'' ''/home/ec2-user/cb.rpm'',
                Inl (ErrorString ''File already exists''))]"

definition listing_A :: string where
  "listing_A = ''nvme0n1 8G disk \<newline>nvme0n1p1 8G part /\<newline>nvme1n1 100G disk ''"

definition host_partitioned :: channel where
  "host_partitioned =
     scripted [(ExecuteCommand ''lsblk -o NAME,SIZE,TYPE,MOUNTPOINT'', Inr listing_A)]"

definition host_new_disk :: channel where
  "host_new_disk =
     scripted [(ExecuteCommand ''lsblk -o NAME,SIZE,TYPE,MOUNTPOINT'', Inr listing_A),
               (ExecuteCommand ''lsblk /dev/nvme1n1 | grep /dev/nvme1n1p1'',
                Inl (ErrorString ''Process exited with status 1''))]"

definition host_volume_gone :: channel where
  "host_volume_gone =
     scripted [(ExecuteCommand ''lsblk -o NAME,SIZE,TYPE,MOUNTPOINT'', Inr listing_A),
               (ExecuteCommand ''lsblk | grep nvme1n1'',
                Inl (ErrorString ''Process exited with status 1''))]"

definition host_format_fails :: channel where
  "host_format_fails =
     scripted [(ExecuteCommand ''lsblk -o NAME,SIZE,TYPE,MOUNTPOINT'', Inr listing_A),
               (ExecuteCommand ''lsblk /dev/nvme1n1 | grep /dev/nvme1n1p1'',
                Inl (ErrorString ''Process exited with status 1'')),
               (ExecuteCommand ''mkfs.xfs /dev/nvme1n1p1'',
                Inl (ErrorString ''Process exited with status 1''))]"

section \<open>The block device locator: last disk line, or not found\<close>

lemma fields_from_nonempty: "f \<in> set (fields_from cur s) \<Longrightarrow> f \<noteq> []"
  by (induction cur s rule: fields_from.induct) (auto split: if_splits)

lemma strings_Fields_nonempty:
  "i < length (strings_Fields line) \<Longrightarrow> strings_Fields line ! i \<noteq> []"
  using fields_from_nonempty [of "strings_Fields line ! i" "[]" line]
  by (simp add: strings_Fields_def)

lemma scan_lines_filter:
  "scan_lines lines acc =
     (if filter disk_line lines = [] then acc
      else strings_Fields (last (filter disk_line lines)) ! 0)"
  by (induction lines arbitrary: acc) (simp_all add: disk_line_def Let_def)

lemma disk_line_name: "disk_line line \<Longrightarrow> strings_Fields line ! 0 \<noteq> []"
  by (rule strings_Fields_nonempty) (auto simp: disk_line_def)

lemma last_disk_line: "disk_lines text \<noteq> [] \<Longrightarrow> disk_line (last (disk_lines text))"
proof -
  assume ne: "disk_lines text \<noteq> []"
  then have "last (disk_lines text) \<in> set (disk_lines text)" by (rule last_in_set)
  then show ?thesis by (simp add: disk_lines_def)
qed

text \<open>
  C2. When the listing has at least one disk line (three or more fields, the third
  \<open>disk\<close>), \<open>ExtractLastVolumeName\<close> returns the first field of the last disk line in
  input order, whatever stands between the disk lines; and for the listing of scenario A
  it returns \<open>nvme1n1\<close>.
\<close>

theorem C2_last_disk:
  "(disk_lines text \<noteq> [] \<longrightarrow>
      ExtractLastVolumeName text = Inr (strings_Fields (last (disk_lines text)) ! 0))
   \<and> ExtractLastVolumeName
        ''nvme0n1 8G disk \<newline>nvme0n1p1 8G part /\<newline>nvme1n1 100G disk '' = Inr ''nvme1n1''"
proof (intro conjI impI)
  assume ne: "disk_lines text \<noteq> []"
  have "strings_Fields (last (disk_lines text)) ! 0 \<noteq> []"
    using last_disk_line [OF ne] by (rule disk_line_name)
  with ne show "ExtractLastVolumeName text = Inr (strings_Fields (last (disk_lines text)) ! 0)"
    by (simp add: ExtractLastVolumeName_def scan_lines_filter disk_lines_def)
next
  show "ExtractLastVolumeName
        ''nvme0n1 8G disk \<newline>nvme0n1p1 8G part /\<newline>nvme1n1 100G disk '' = Inr ''nvme1n1''"
    by code_simp
qed

theorem C2_last_disk_witness:
  "disk_lines (''sda 8G disk /'' @ [CHR 0x0A] @ ''sr0 1G rom'' @ [CHR 0x0A, CHR 0x0A]
                @ ''xvdf 100G disk'') = [''sda 8G disk /'', ''xvdf 100G disk'']
   \<and> ExtractLastVolumeName (''sda 8G disk /'' @ [CHR 0x0A] @ ''sr0 1G rom''
                @ [CHR 0x0A, CHR 0x0A] @ ''xvdf 100G disk'') = Inr ''xvdf''"
proof -
  let ?t = "''sda 8G disk /'' @ [CHR 0x0A] @ ''sr0 1G rom'' @ [CHR 0x0A, CHR 0x0A]
              @ ''xvdf 100G disk''"
  have d: "disk_lines ?t = [''sda 8G disk /'', ''xvdf 100G disk'']" by code_simp
  then have ne: "disk_lines ?t \<noteq> []" by simp
  have f: "strings_Fields ''xvdf 100G disk'' ! 0 = ''xvdf''" by code_simp
  from C2_last_disk [of ?t] ne
  have "ExtractLastVolumeName ?t = Inr (strings_Fields (last (disk_lines ?t)) ! 0)" by blast
  with d f show ?thesis by simp
qed

text \<open>
  C3. When no line of the listing is a disk line (lines with fewer than three fields
  are not disk lines and are passed over), \<open>ExtractLastVolumeName\<close> returns the error
  \<open>no disk volume found in lsblk output\<close> and no name.
\<close>

theorem C3_no_disk:
  "disk_lines text = [] \<Longrightarrow>
     ExtractLastVolumeName text = Inl (ErrorString ''no disk volume found in lsblk output'')"
  by (simp add: ExtractLastVolumeName_def scan_lines_filter disk_lines_def fmt_Errorf_def)

theorem C3_no_disk_witness:
  "disk_lines (''NAME SIZE TYPE MOUNTPOINT'' @ [CHR 0x0A] @ ''sda1 8G part /'' @ [CHR 0x0A]
                @ ''disk'' @ [CHR 0x0A]) = []
   \<and> ExtractLastVolumeName (''NAME SIZE TYPE MOUNTPOINT'' @ [CHR 0x0A] @ ''sda1 8G part /''
                @ [CHR 0x0A] @ ''disk'' @ [CHR 0x0A])
       = Inl (ErrorString ''no disk volume found in lsblk output'')"
proof -
  let ?t = "''NAME SIZE TYPE MOUNTPOINT'' @ [CHR 0x0A] @ ''sda1 8G part /'' @ [CHR 0x0A]
              @ ''disk'' @ [CHR 0x0A]"
  have d: "disk_lines ?t = []" by code_simp
  from C3_no_disk [OF d] d show ?thesis by simp
qed

section \<open>Operations as fail-fast sequences\<close>

lemma invoke_err_Inl: "remote cl tr c = Inl e \<Longrightarrow> invoke_err cl c tr = (Some e, tr @ [Remote c])"
  by (simp add: invoke_err_def)

lemma invoke_err_Inr: "remote cl tr c = Inr out \<Longrightarrow> invoke_err cl c tr = (None, tr @ [Remote c])"
  by (simp add: invoke_err_def)

lemma installDeps_steps:
  "installDeps n tr =
     run_steps (client n) [(Remote (InstallPackages (Dependencies (client n))), \<lambda>e. e)] tr"
  by (simp add: installDeps_def invoke_err_def split: sum.splits)

lemma uninstallCB_steps:
  "uninstallCB v n tr =
     run_steps (client n)
       [(Remote (UninstallPackages [''couchbase-server'']),
           \<lambda>e. Wrapped e (''failed to uninstall 'couchbase-server'' @ [CHR 0x27])),
        (Remote (RemoveDirectory (CBInstallDirectory v)),
           \<lambda>e. Wrapped e (''failed to cleanup install directory at ''
                            @ [CHR 0x27] @ CBInstallDirectory v @ [CHR 0x27]))] tr"
  by (simp add: uninstallCB_def invoke_err_def errors_Wrapf_def split: sum.splits)

lemma installCB_steps:
  "installCB n localPath tr =
     run_steps (client n)
       [(Remote (SecureUpload localPath (remote_path localPath)),
           \<lambda>e. Wrapped e ''failed to upload package archive''),
        (Remote (InstallPackageAt (remote_path localPath)),
           \<lambda>e. Wrapped e (''failed to install 'couchbase-server'' @ [CHR 0x27])),
        (Remote (RemoveFile (remote_path localPath)),
           \<lambda>e. Wrapped e ''failed to remove package archive'')] tr"
  by (simp add: installCB_def invoke_err_def remote_path_def Let_def split: sum.splits)

lemma giveCBPermissions_steps:
  "giveCBPermissions v n tr =
     run_steps (client n)
       [(Remote (ExecuteCommand (NewCommand v ''sudo chown -R couchbase:couchbase /mnt'' [])),
           \<lambda>e. WrapError (''failed to change permissions on /mnt: '' @ Error e) e)] tr"
  by (simp add: giveCBPermissions_def invoke_err_def fmt_Errorf_w_def split: sum.splits)

lemma run_stage:
  "run_steps cl (stage msg steps @ rest) tr =
     (case run_steps cl steps tr of
        (None, tr') \<Rightarrow> run_steps cl rest tr'
      | (Some e, tr') \<Rightarrow> (Some (Wrapped e msg), tr'))"
proof (induction steps arbitrary: tr)
  case Nil
  show ?case by (simp add: stage_def)
next
  case (Cons st steps)
  obtain ev report where st: "st = (ev, report)" by (cases st)
  have unfold: "stage msg (st # steps) @ rest =
                  (ev, \<lambda>e. Wrapped (report e) msg) # (stage msg steps @ rest)"
    by (simp add: stage_def st)
  show ?case
  proof (cases ev)
    case (Remote c)
    show ?thesis
      unfolding unfold using Cons.IH by (simp add: st Remote split: sum.splits)
  next
    case (Sleep d)
    show ?thesis
      unfolding unfold using Cons.IH by (simp add: st Sleep)
  qed
qed

lemma provision_stages:
  "provision v n packagePath tr =
     run_steps (client n)
       (stage ''failed to install dependencies''
          [(Remote (InstallPackages (Dependencies (client n))), \<lambda>e. e)]
        @ stage ''failed to uninstall Couchbase Server''
          [(Remote (UninstallPackages [''couchbase-server'']),
              \<lambda>e. Wrapped e (''failed to uninstall 'couchbase-server'' @ [CHR 0x27])),
           (Remote (RemoveDirectory (CBInstallDirectory v)),
              \<lambda>e. Wrapped e (''failed to cleanup install directory at ''
                               @ [CHR 0x27] @ CBInstallDirectory v @ [CHR 0x27]))]
        @ stage ''failed to install Couchbase Server''
          [(Remote (SecureUpload packagePath (remote_path packagePath)),
              \<lambda>e. Wrapped e ''failed to upload package archive''),
           (Remote (InstallPackageAt (remote_path packagePath)),
              \<lambda>e. Wrapped e (''failed to install 'couchbase-server'' @ [CHR 0x27])),
           (Remote (RemoveFile (remote_path packagePath)),
              \<lambda>e. Wrapped e ''failed to remove package archive'')]
        @ (Sleep 30, \<lambda>e. e)
        # stage ''failed to give Couchbase Server permissions''
          [(Remote (ExecuteCommand (NewCommand v ''sudo chown -R couchbase:couchbase /mnt'' [])),
              \<lambda>e. WrapError (''failed to change permissions on /mnt: '' @ Error e) e)]
        @ []) tr"
  unfolding provision_def installDeps_steps uninstallCB_steps installCB_steps
    giveCBPermissions_steps run_stage run_steps.simps(2)
  by (simp del: run_steps.simps(2,3) split: prod.splits option.splits)

lemma provision_run_steps:
  "provision v n packagePath tr = run_steps (client n) (provision_steps v n packagePath) tr"
  unfolding provision_stages by (simp add: stage_def provision_steps_def del: run_steps.simps)


lemma run_steps_all_succeed:
  "all_succeed cl tr (map fst steps) \<Longrightarrow> run_steps cl steps tr = (None, tr @ map fst steps)"
proof (induction steps arbitrary: tr)
  case Nil
  then show ?case by simp
next
  case (Cons st steps)
  obtain ev report where st: "st = (ev, report)" by (cases st)
  show ?case
  proof (cases ev)
    case (Remote c)
    from Cons.prems have ok: "succeeds cl tr (Remote c)"
      and rest: "all_succeed cl (tr @ [Remote c]) (map fst steps)"
      by (simp_all add: st Remote)
    from ok obtain out where "remote cl tr c = Inr out"
      by (auto split: sum.splits)
    then show ?thesis using Cons.IH [OF rest] by (simp add: st Remote)
  next
    case (Sleep d)
    from Cons.prems have rest: "all_succeed cl (tr @ [Sleep d]) (map fst steps)"
      by (simp add: st Sleep)
    show ?thesis using Cons.IH [OF rest] by (simp add: st Sleep)
  qed
qed

lemma run_steps_append:
  "all_succeed cl tr (map fst pre) \<Longrightarrow>
     run_steps cl (pre @ post) tr = run_steps cl post (tr @ map fst pre)"
proof (induction pre arbitrary: tr)
  case Nil
  then show ?case by simp
next
  case (Cons st pre)
  obtain ev report where st: "st = (ev, report)" by (cases st)
  show ?case
  proof (cases ev)
    case (Remote c)
    from Cons.prems have ok: "succeeds cl tr (Remote c)"
      and rest: "all_succeed cl (tr @ [Remote c]) (map fst pre)"
      by (simp_all add: st Remote)
    from ok obtain out where "remote cl tr c = Inr out"
      by (auto split: sum.splits)
    then show ?thesis using Cons.IH [OF rest] by (simp add: st Remote)
  next
    case (Sleep d)
    from Cons.prems have rest: "all_succeed cl (tr @ [Sleep d]) (map fst pre)"
      by (simp add: st Sleep)
    show ?thesis using Cons.IH [OF rest] by (simp add: st Sleep)
  qed
qed

lemma run_steps_first_failure:
  assumes k: "k < length steps"
    and before: "all_succeed cl tr (map fst (take k steps))"
    and at: "steps ! k = (Remote c, report)"
    and fails: "remote cl (tr @ map fst (take k steps)) c = Inl e"
  shows "run_steps cl steps tr = (Some (report e), tr @ map fst (take (Suc k) steps))"
proof -
  have split: "take k steps @ (Remote c, report) # drop (Suc k) steps = steps"
    unfolding at [symmetric] by (rule id_take_nth_drop [OF k, symmetric])
  have "run_steps cl (take k steps @ (Remote c, report) # drop (Suc k) steps) tr =
          run_steps cl ((Remote c, report) # drop (Suc k) steps) (tr @ map fst (take k steps))"
    using before by (rule run_steps_append)
  also have "\<dots> = (Some (report e), (tr @ map fst (take k steps)) @ [Remote c])"
    using fails by simp
  also have "(tr @ map fst (take k steps)) @ [Remote c] = tr @ map fst (take (Suc k) steps)"
    using k at by (simp add: take_Suc_conv_app_nth)
  finally show ?thesis by (simp only: split)
qed

section \<open>Provisioning\<close>

text \<open>
  C5. \<open>provision\<close> is the fail-fast run of the eight steps of \<open>provision_steps\<close>, in
  that order: install the dependencies; uninstall the server and remove its install
  directory; upload the package, install it and remove the archive; pause 30 seconds;
  chown \<open>/mnt\<close> to the service user. When every step succeeds it returns no error
  after exactly these events. When step \<open>k\<close> is the first to fail it returns that
  step's error wrapped with the description of its stage, and the events end with the
  failing call: nothing is retried and no later step is made.
\<close>

theorem C5_provision_sequence:
  "provision v n packagePath tr = run_steps (client n) (provision_steps v n packagePath) tr
   \<and> (all_succeed (client n) tr (map fst (provision_steps v n packagePath)) \<longrightarrow>
        provision v n packagePath tr = (None, tr @ map fst (provision_steps v n packagePath)))
   \<and> (\<forall>k c report e.
        k < length (provision_steps v n packagePath) \<longrightarrow>
        all_succeed (client n) tr (map fst (take k (provision_steps v n packagePath))) \<longrightarrow>
        provision_steps v n packagePath ! k = (Remote c, report) \<longrightarrow>
        remote (client n) (tr @ map fst (take k (provision_steps v n packagePath))) c = Inl e \<longrightarrow>
        provision v n packagePath tr =
          (Some (report e), tr @ map fst (take (Suc k) (provision_steps v n packagePath))))"
proof (intro conjI allI impI)
  show "provision v n packagePath tr = run_steps (client n) (provision_steps v n packagePath) tr"
    by (rule provision_run_steps)
next
  assume "all_succeed (client n) tr (map fst (provision_steps v n packagePath))"
  then show "provision v n packagePath tr = (None, tr @ map fst (provision_steps v n packagePath))"
    unfolding provision_run_steps by (rule run_steps_all_succeed)
next
  fix k c report e
  assume "k < length (provision_steps v n packagePath)"
    and "all_succeed (client n) tr (map fst (take k (provision_steps v n packagePath)))"
    and "provision_steps v n packagePath ! k = (Remote c, report)"
    and "remote (client n) (tr @ map fst (take k (provision_steps v n packagePath))) c = Inl e"
  then show "provision v n packagePath tr =
          (Some (report e), tr @ map fst (take (Suc k) (provision_steps v n packagePath)))"
    unfolding provision_run_steps by (rule run_steps_first_failure)
qed

lemma remote_path_example: "remote_path ''pkgs/cb.rpm'' = ''/home/ec2-user/cb.rpm''"
  by code_simp

theorem C5_provision_sequence_witness:
  "all_succeed (client (node_on (scripted []) [] [])) []
     (map fst (provision_steps value_Sprintf (node_on (scripted []) [] []) ''pkgs/cb.rpm''))
   \<and> provision value_Sprintf (node_on (scripted []) [] []) ''pkgs/cb.rpm'' [] =
       (None,
        [Remote (InstallPackages [''openssl'', ''ncurses-compat-libs'']),
         Remote (UninstallPackages [''couchbase-server'']),
         Remote (RemoveDirectory ''/opt/couchbase''),
         Remote (SecureUpload ''pkgs/cb.rpm'' ''/home/ec2-user/cb.rpm''),
         Remote (InstallPackageAt ''/home/ec2-user/cb.rpm''),
         Remote (RemoveFile ''/home/ec2-user/cb.rpm''),
         Sleep 30,
         Remote (ExecuteCommand ''sudo chown -R couchbase:couchbase /mnt'')])
   \<and> remote (client (node_on uninstall_fails [] []))
        [Remote (InstallPackages [''openssl'', ''ncurses-compat-libs''])]
        (UninstallPackages [''couchbase-server'']) = Inl (ErrorString ''exit status 1'')
   \<and> provision value_Sprintf (node_on uninstall_fails [] []) ''pkgs/cb.rpm'' [] =
       (Some (Wrapped (Wrapped (ErrorString ''exit status 1'')
                        (''failed to uninstall 'couchbase-server'' @ [CHR 0x27]))
                ''failed to uninstall Couchbase Server''),
        [Remote (InstallPackages [''openssl'', ''ncurses-compat-libs'']),
         Remote (UninstallPackages [''couchbase-server''])])"
proof -
  let ?n = "node_on (scripted []) [] []"
  let ?m = "node_on uninstall_fails [] []"
  let ?wrap = "\<lambda>e. Wrapped (Wrapped e (''failed to uninstall 'couchbase-server'' @ [CHR 0x27]))
                ''failed to uninstall Couchbase Server''"
  have evs: "map fst (provision_steps value_Sprintf ?n ''pkgs/cb.rpm'') =
       [Remote (InstallPackages [''openssl'', ''ncurses-compat-libs'']),
        Remote (UninstallPackages [''couchbase-server'']),
        Remote (RemoveDirectory ''/opt/couchbase''),
        Remote (SecureUpload ''pkgs/cb.rpm'' ''/home/ec2-user/cb.rpm''),
        Remote (InstallPackageAt ''/home/ec2-user/cb.rpm''),
        Remote (RemoveFile ''/home/ec2-user/cb.rpm''),
        Sleep 30,
        Remote (ExecuteCommand ''sudo chown -R couchbase:couchbase /mnt'')]"
    by (simp add: provision_steps_def remote_path_example node_on_def value_Sprintf_def)
  have ok: "all_succeed (client ?n) [] (map fst (provision_steps value_Sprintf ?n ''pkgs/cb.rpm''))"
    unfolding evs by (simp add: node_on_def scripted_def)
  from C5_provision_sequence [of value_Sprintf ?n "''pkgs/cb.rpm''" "[]"] ok
  have good: "provision value_Sprintf ?n ''pkgs/cb.rpm'' [] =
          (None, [] @ map fst (provision_steps value_Sprintf ?n ''pkgs/cb.rpm''))"
    by blast
  have len: "1 < length (provision_steps value_Sprintf ?m ''pkgs/cb.rpm'')"
    by (simp add: provision_steps_def)
  have pre: "map fst (take 1 (provision_steps value_Sprintf ?m ''pkgs/cb.rpm'')) =
               [Remote (InstallPackages [''openssl'', ''ncurses-compat-libs''])]"
    by (simp add: provision_steps_def node_on_def)
  have upto: "map fst (take (Suc 1) (provision_steps value_Sprintf ?m ''pkgs/cb.rpm'')) =
               [Remote (InstallPackages [''openssl'', ''ncurses-compat-libs'']),
                Remote (UninstallPackages [''couchbase-server''])]"
    by (simp add: provision_steps_def node_on_def)
  have before: "all_succeed (client ?m) []
                  (map fst (take 1 (provision_steps value_Sprintf ?m ''pkgs/cb.rpm'')))"
    unfolding pre by (simp add: node_on_def uninstall_fails_def scripted_def)
  have at: "provision_steps value_Sprintf ?m ''pkgs/cb.rpm'' ! 1 =
              (Remote (UninstallPackages [''couchbase-server'']), ?wrap)"
    by (simp add: provision_steps_def)
  have fails: "remote (client ?m)
                 ([] @ map fst (take 1 (provision_steps value_Sprintf ?m ''pkgs/cb.rpm'')))
                 (UninstallPackages [''couchbase-server'']) = Inl (ErrorString ''exit status 1'')"
    unfolding pre by (simp add: node_on_def uninstall_fails_def scripted_def)
  from C5_provision_sequence [of value_Sprintf ?m "''pkgs/cb.rpm''" "[]"] len before at fails
  have bad: "provision value_Sprintf ?m ''pkgs/cb.rpm'' [] =
          (Some (?wrap (ErrorString ''exit status 1'')),
           [] @ map fst (take (Suc 1) (provision_steps value_Sprintf ?m ''pkgs/cb.rpm'')))"
    by blast
  show ?thesis
  proof (intro conjI)
    show "all_succeed (client ?n) [] (map fst (provision_steps value_Sprintf ?n ''pkgs/cb.rpm''))"
      by (rule ok)
    show "provision value_Sprintf ?n ''pkgs/cb.rpm'' [] =
       (None,
        [Remote (InstallPackages [''openssl'', ''ncurses-compat-libs'']),
         Remote (UninstallPackages [''couchbase-server'']),
         Remote (RemoveDirectory ''/opt/couchbase''),
         Remote (SecureUpload ''pkgs/cb.rpm'' ''/home/ec2-user/cb.rpm''),
         Remote (InstallPackageAt ''/home/ec2-user/cb.rpm''),
         Remote (RemoveFile ''/home/ec2-user/cb.rpm''),
         Sleep 30,
         Remote (ExecuteCommand ''sudo chown -R couchbase:couchbase /mnt'')])"
      using good by (simp only: evs append_Nil)
    show "remote (client ?m)
        [Remote (InstallPackages [''openssl'', ''ncurses-compat-libs''])]
        (UninstallPackages [''couchbase-server'']) = Inl (ErrorString ''exit status 1'')"
      using fails by (simp only: pre append_Nil)
    show "provision value_Sprintf ?m ''pkgs/cb.rpm'' [] =
       (Some (Wrapped (Wrapped (ErrorString ''exit status 1'')
                        (''failed to uninstall 'couchbase-server'' @ [CHR 0x27]))
                ''failed to uninstall Couchbase Server''),
        [Remote (InstallPackages [''openssl'', ''ncurses-compat-libs'']),
         Remote (UninstallPackages [''couchbase-server''])])"
      using bad by (simp only: upto append_Nil)
  qed
qed

text \<open>
  C9. After a successful upload and a successful install, \<open>installCB\<close> always removes
  the uploaded archive at the remote staging path, as its third and last call. When that
  removal fails, \<open>installCB\<close> fails with \<open>failed to remove package archive\<close>, and a
  provisioning run that got this far fails with it, wrapped as
  \<open>failed to install Couchbase Server\<close>, without pausing and without the chown.
\<close>

theorem C9_archive_removal:
  "(remote (client n) tr (SecureUpload p (remote_path p)) = Inr up_out \<longrightarrow>
    remote (client n) (tr @ [Remote (SecureUpload p (remote_path p))])
      (InstallPackageAt (remote_path p)) = Inr inst_out \<longrightarrow>
      snd (installCB n p tr) =
        tr @ [Remote (SecureUpload p (remote_path p)), Remote (InstallPackageAt (remote_path p)),
              Remote (RemoveFile (remote_path p))]
      \<and> (\<forall>e. remote (client n)
                (tr @ [Remote (SecureUpload p (remote_path p)),
                       Remote (InstallPackageAt (remote_path p))])
                (RemoveFile (remote_path p)) = Inl e \<longrightarrow>
              fst (installCB n p tr) = Some (Wrapped e ''failed to remove package archive'')))
   \<and> (all_succeed (client n) tr (map fst (take 5 (provision_steps v n p))) \<longrightarrow>
      remote (client n) (tr @ map fst (take 5 (provision_steps v n p)))
        (RemoveFile (remote_path p)) = Inl e' \<longrightarrow>
      provision v n p tr =
        (Some (Wrapped (Wrapped e' ''failed to remove package archive'')
                 ''failed to install Couchbase Server''),
         tr @ map fst (take 6 (provision_steps v n p))))"
proof (intro conjI impI allI)
  assume up: "remote (client n) tr (SecureUpload p (remote_path p)) = Inr up_out"
    and inst: "remote (client n) (tr @ [Remote (SecureUpload p (remote_path p))])
                 (InstallPackageAt (remote_path p)) = Inr inst_out"
  show "snd (installCB n p tr) =
        tr @ [Remote (SecureUpload p (remote_path p)), Remote (InstallPackageAt (remote_path p)),
              Remote (RemoveFile (remote_path p))]"
    using up inst by (simp add: installCB_steps split: sum.splits)
  fix e
  assume "remote (client n)
            (tr @ [Remote (SecureUpload p (remote_path p)),
                   Remote (InstallPackageAt (remote_path p))])
            (RemoveFile (remote_path p)) = Inl e"
  then show "fst (installCB n p tr) = Some (Wrapped e ''failed to remove package archive'')"
    using up inst by (simp add: installCB_steps)
next
  assume before: "all_succeed (client n) tr (map fst (take 5 (provision_steps v n p)))"
    and fails: "remote (client n) (tr @ map fst (take 5 (provision_steps v n p)))
                  (RemoveFile (remote_path p)) = Inl e'"
  have len: "5 < length (provision_steps v n p)" by (simp add: provision_steps_def)
  have at: "provision_steps v n p ! 5 =
              (Remote (RemoveFile (remote_path p)),
               \<lambda>e. Wrapped (Wrapped e ''failed to remove package archive'')
                      ''failed to install Couchbase Server'')"
    by (simp add: provision_steps_def)
  have "run_steps (client n) (provision_steps v n p) tr =
          (Some (Wrapped (Wrapped e' ''failed to remove package archive'')
                 ''failed to install Couchbase Server''),
           tr @ map fst (take (Suc 5) (provision_steps v n p)))"
    using run_steps_first_failure [OF len before at fails] .
  then show "provision v n p tr =
        (Some (Wrapped (Wrapped e' ''failed to remove package archive'')
                 ''failed to install Couchbase Server''),
         tr @ map fst (take 6 (provision_steps v n p)))"
    by (simp add: provision_run_steps)
qed

theorem C9_archive_removal_witness:
  "remote (client (node_on remove_fails [] [])) []
     (SecureUpload ''pkgs/cb.rpm'' ''/home/ec2-user/cb.rpm'') = Inr []
   \<and> remote (client (node_on remove_fails [] []))
       [Remote (SecureUpload ''pkgs/cb.rpm'' ''/home/ec2-user/cb.rpm'')]
       (InstallPackageAt ''/home/ec2-user/cb.rpm'') = Inr []
   \<and> installCB (node_on remove_fails [] []) ''pkgs/cb.rpm'' [] =
       (Some (Wrapped (ErrorString ''permission denied'') ''failed to remove package archive''),
        [Remote (SecureUpload ''pkgs/cb.rpm'' ''/home/ec2-user/cb.rpm''),
         Remote (InstallPackageAt ''/home/ec2-user/cb.rpm''),
         Remote (RemoveFile ''/home/ec2-user/cb.rpm'')])
   \<and> provision value_Sprintf (node_on remove_fails [] []) ''pkgs/cb.rpm'' [] =
       (Some (Wrapped (Wrapped (ErrorString ''permission denied'')
                         ''failed to remove package archive'')
                ''failed to install Couchbase Server''),
        [Remote (InstallPackages [''openssl'', ''ncurses-compat-libs'']),
         Remote (UninstallPackages [''couchbase-server'']),
         Remote (RemoveDirectory ''/opt/couchbase''),
         Remote (SecureUpload ''pkgs/cb.rpm'' ''/home/ec2-user/cb.rpm''),
         Remote (InstallPackageAt ''/home/ec2-user/cb.rpm''),
         Remote (RemoveFile ''/home/ec2-user/cb.rpm'')])"
proof -
  let ?n = "node_on remove_fails [] []"
  let ?p = "''pkgs/cb.rpm''"
  let ?e = "ErrorString ''permission denied''"
  note ch = node_on_def remove_fails_def scripted_def
  have up: "remote (client ?n) [] (SecureUpload ?p (remote_path ?p)) = Inr []"
    by (simp add: ch remote_path_example)
  have inst: "remote (client ?n) ([] @ [Remote (SecureUpload ?p (remote_path ?p))])
                (InstallPackageAt (remote_path ?p)) = Inr []"
    by (simp add: ch remote_path_example)
  have rm: "remote (client ?n)
              ([] @ [Remote (SecureUpload ?p (remote_path ?p)),
                     Remote (InstallPackageAt (remote_path ?p))])
              (RemoveFile (remote_path ?p)) = Inl ?e"
    by (simp add: ch remote_path_example)
  have pre: "map fst (take 5 (provision_steps value_Sprintf ?n ?p)) =
       [Remote (InstallPackages [''openssl'', ''ncurses-compat-libs'']),
        Remote (UninstallPackages [''couchbase-server'']),
        Remote (RemoveDirectory ''/opt/couchbase''),
        Remote (SecureUpload ''pkgs/cb.rpm'' ''/home/ec2-user/cb.rpm''),
        Remote (InstallPackageAt ''/home/ec2-user/cb.rpm'')]"
    by (simp add: provision_steps_def remote_path_example node_on_def value_Sprintf_def)
  have upto: "map fst (take 6 (provision_steps value_Sprintf ?n ?p)) =
       [Remote (InstallPackages [''openssl'', ''ncurses-compat-libs'']),
        Remote (UninstallPackages [''couchbase-server'']),
        Remote (RemoveDirectory ''/opt/couchbase''),
        Remote (SecureUpload ''pkgs/cb.rpm'' ''/home/ec2-user/cb.rpm''),
        Remote (InstallPackageAt ''/home/ec2-user/cb.rpm''),
        Remote (RemoveFile ''/home/ec2-user/cb.rpm'')]"
    by (simp add: provision_steps_def remote_path_example node_on_def value_Sprintf_def)
  have before: "all_succeed (client ?n) [] (map fst (take 5 (provision_steps value_Sprintf ?n ?p)))"
    unfolding pre by (simp add: ch)
  have fails: "remote (client ?n) ([] @ map fst (take 5 (provision_steps value_Sprintf ?n ?p)))
                 (RemoveFile (remote_path ?p)) = Inl ?e"
    unfolding pre by (simp add: ch remote_path_example)
  note here = C9_archive_removal [where n = ?n and tr = "[]" and p = ?p and up_out = "[]"
      and inst_out = "[]" and v = value_Sprintf and e' = ?e]
  from here up inst
  have tr: "snd (installCB ?n ?p []) =
              [] @ [Remote (SecureUpload ?p (remote_path ?p)),
                    Remote (InstallPackageAt (remote_path ?p)),
                    Remote (RemoveFile (remote_path ?p))]"
    by blast
  from here up inst rm
  have res: "fst (installCB ?n ?p []) = Some (Wrapped ?e ''failed to remove package archive'')"
    by blast
  from here before fails
  have prov: "provision value_Sprintf ?n ?p [] =
        (Some (Wrapped (Wrapped ?e ''failed to remove package archive'')
                 ''failed to install Couchbase Server''),
         [] @ map fst (take 6 (provision_steps value_Sprintf ?n ?p)))"
    by blast
  show ?thesis
  proof (intro conjI)
    show "remote (client ?n) [] (SecureUpload ''pkgs/cb.rpm'' ''/home/ec2-user/cb.rpm'') = Inr []"
      using up by (simp only: remote_path_example)
    show "remote (client ?n) [Remote (SecureUpload ''pkgs/cb.rpm'' ''/home/ec2-user/cb.rpm'')]
            (InstallPackageAt ''/home/ec2-user/cb.rpm'') = Inr []"
      using inst by (simp only: remote_path_example append_Nil)
    show "installCB ?n ''pkgs/cb.rpm'' [] =
       (Some (Wrapped ?e ''failed to remove package archive''),
        [Remote (SecureUpload ''pkgs/cb.rpm'' ''/home/ec2-user/cb.rpm''),
         Remote (InstallPackageAt ''/home/ec2-user/cb.rpm''),
         Remote (RemoveFile ''/home/ec2-user/cb.rpm'')])"
      using tr res by (simp only: remote_path_example append_Nil prod_eq_iff fst_conv snd_conv simp_thms)
    show "provision value_Sprintf ?n ''pkgs/cb.rpm'' [] =
       (Some (Wrapped (Wrapped ?e ''failed to remove package archive'')
                ''failed to install Couchbase Server''),
        [Remote (InstallPackages [''openssl'', ''ncurses-compat-libs'']),
         Remote (UninstallPackages [''couchbase-server'']),
         Remote (RemoveDirectory ''/opt/couchbase''),
         Remote (SecureUpload ''pkgs/cb.rpm'' ''/home/ec2-user/cb.rpm''),
         Remote (InstallPackageAt ''/home/ec2-user/cb.rpm''),
         Remote (RemoveFile ''/home/ec2-user/cb.rpm'')])"
      using prov by (simp only: upto append_Nil)
  qed
qed

text \<open>
  C1, as the code behaves. Whatever error the upload returns, \<open>installCB\<close> fails
  with it, wrapped as \<open>failed to upload package archive\<close>, and a provisioning run
  that got this far fails too: the case \<open>err != nil\<close> of the \<open>switch\<close> comes first,
  so the case for \<open>File already exists\<close> is reached only with a \<open>nil\<close> error, for
  which \<open>errors.Is\<close> is false. The witness is the host on which the archive is
  already present.
\<close>

theorem C1_upload_error_fails:
  "(remote (client n) tr (SecureUpload p (remote_path p)) = Inl e \<longrightarrow>
      installCB n p tr =
        (Some (Wrapped e ''failed to upload package archive''),
         tr @ [Remote (SecureUpload p (remote_path p))]))
   \<and> (all_succeed (client n) tr (map fst (take 3 (provision_steps v n p))) \<longrightarrow>
      remote (client n) (tr @ map fst (take 3 (provision_steps v n p)))
        (SecureUpload p (remote_path p)) = Inl e' \<longrightarrow>
      provision v n p tr =
        (Some (Wrapped (Wrapped e' ''failed to upload package archive'')
                 ''failed to install Couchbase Server''),
         tr @ map fst (take 4 (provision_steps v n p))))"
proof (intro conjI impI)
  assume "remote (client n) tr (SecureUpload p (remote_path p)) = Inl e"
  then show "installCB n p tr =
        (Some (Wrapped e ''failed to upload package archive''),
         tr @ [Remote (SecureUpload p (remote_path p))])"
    by (simp add: installCB_def invoke_err_def remote_path_def Let_def)
next
  assume before: "all_succeed (client n) tr (map fst (take 3 (provision_steps v n p)))"
    and fails: "remote (client n) (tr @ map fst (take 3 (provision_steps v n p)))
                  (SecureUpload p (remote_path p)) = Inl e'"
  have len: "3 < length (provision_steps v n p)" by (simp add: provision_steps_def)
  have at: "provision_steps v n p ! 3 =
              (Remote (SecureUpload p (remote_path p)),
               \<lambda>e. Wrapped (Wrapped e ''failed to upload package archive'')
                      ''failed to install Couchbase Server'')"
    by (simp add: provision_steps_def)
  have "run_steps (client n) (provision_steps v n p) tr =
          (Some (Wrapped (Wrapped e' ''failed to upload package archive'')
                 ''failed to install Couchbase Server''),
           tr @ map fst (take (Suc 3) (provision_steps v n p)))"
    using run_steps_first_failure [OF len before at fails] .
  then show "provision v n p tr =
        (Some (Wrapped (Wrapped e' ''failed to upload package archive'')
                 ''failed to install Couchbase Server''),
         tr @ map fst (take 4 (provision_steps v n p)))"
    by (simp add: provision_run_steps)
qed

theorem C1_upload_error_fails_witness:
  "remote (client (node_on archive_present [] [])) []
     (SecureUpload ''pkgs/cb.rpm'' ''/home/ec2-user/cb.rpm'') = Inl (ErrorString ''File already exists'')
   \<and> installCB (node_on archive_present [] []) ''pkgs/cb.rpm'' [] =
       (Some (Wrapped (ErrorString ''File already exists'') ''failed to upload package archive''),
        [Remote (SecureUpload ''pkgs/cb.rpm'' ''/home/ec2-user/cb.rpm'')])
   \<and> provision value_Sprintf (node_on archive_present [] []) ''pkgs/cb.rpm'' [] =
       (Some (Wrapped (Wrapped (ErrorString ''File already exists'')
                         ''failed to upload package archive'')
                ''failed to install Couchbase Server''),
        [Remote (InstallPackages [''openssl'', ''ncurses-compat-libs'']),
         Remote (UninstallPackages [''couchbase-server'']),
         Remote (RemoveDirectory ''/opt/couchbase''),
         Remote (SecureUpload ''pkgs/cb.rpm'' ''/home/ec2-user/cb.rpm'')])"
proof -
  let ?n = "node_on archive_present [] []"
  let ?p = "''pkgs/cb.rpm''"
  let ?e = "ErrorString ''File already exists''"
  note ch = node_on_def archive_present_def scripted_def
  have up: "remote (client ?n) [] (SecureUpload ?p (remote_path ?p)) = Inl ?e"
    by (simp add: ch remote_path_example)
  have pre: "map fst (take 3 (provision_steps value_Sprintf ?n ?p)) =
       [Remote (InstallPackages [''openssl'', ''ncurses-compat-libs'']),
        Remote (UninstallPackages [''couchbase-server'']),
        Remote (RemoveDirectory ''/opt/couchbase'')]"
    by (simp add: provision_steps_def remote_path_example node_on_def value_Sprintf_def)
  have upto: "map fst (take 4 (provision_steps value_Sprintf ?n ?p)) =
       [Remote (InstallPackages [''openssl'', ''ncurses-compat-libs'']),
        Remote (UninstallPackages [''couchbase-server'']),
        Remote (RemoveDirectory ''/opt/couchbase''),
        Remote (SecureUpload ''pkgs/cb.rpm'' ''/home/ec2-user/cb.rpm'')]"
    by (simp add: provision_steps_def remote_path_example node_on_def value_Sprintf_def)
  have before: "all_succeed (client ?n) [] (map fst (take 3 (provision_steps value_Sprintf ?n ?p)))"
    unfolding pre by (simp add: ch)
  have fails: "remote (client ?n) ([] @ map fst (take 3 (provision_steps value_Sprintf ?n ?p)))
                 (SecureUpload ?p (remote_path ?p)) = Inl ?e"
    unfolding pre by (simp add: ch remote_path_example)
  note here = C1_upload_error_fails [where n = ?n and tr = "[]" and p = ?p and e = ?e
      and v = value_Sprintf and e' = ?e]
  from here up
  have inst: "installCB ?n ?p [] =
        (Some (Wrapped ?e ''failed to upload package archive''),
         [] @ [Remote (SecureUpload ?p (remote_path ?p))])"
    by blast
  from here before fails
  have prov: "provision value_Sprintf ?n ?p [] =
        (Some (Wrapped (Wrapped ?e ''failed to upload package archive'')
                 ''failed to install Couchbase Server''),
         [] @ map fst (take 4 (provision_steps value_Sprintf ?n ?p)))"
    by blast
  show ?thesis
  proof (intro conjI)
    show "remote (client ?n) [] (SecureUpload ''pkgs/cb.rpm'' ''/home/ec2-user/cb.rpm'') = Inl ?e"
      using up by (simp only: remote_path_example)
    show "installCB ?n ''pkgs/cb.rpm'' [] =
       (Some (Wrapped ?e ''failed to upload package archive''),
        [Remote (SecureUpload ''pkgs/cb.rpm'' ''/home/ec2-user/cb.rpm'')])"
      using inst by (simp only: remote_path_example append_Nil)
    show "provision value_Sprintf ?n ''pkgs/cb.rpm'' [] =
       (Some (Wrapped (Wrapped ?e ''failed to upload package archive'')
                ''failed to install Couchbase Server''),
        [Remote (InstallPackages [''openssl'', ''ncurses-compat-libs'']),
         Remote (UninstallPackages [''couchbase-server'']),
         Remote (RemoveDirectory ''/opt/couchbase''),
         Remote (SecureUpload ''pkgs/cb.rpm'' ''/home/ec2-user/cb.rpm'')])"
      using prov by (simp only: upto append_Nil)
  qed
qed

section \<open>The partitioning sequencer\<close>

lemma partition_tail:
  "(let partitionVolume = Sprintf ''echo ',,,;' | sfdisk /dev/%s'' [volumeName];
        (err, tr4) = invoke_err cl (ExecuteCommand (NewCommand v partitionVolume [])) tr3
    in case err of
      Some e \<Rightarrow> (Some (fmt_Errorf_w ''failed to partition EBS volume: %w'' e), tr4)
    | None \<Rightarrow>
       let makeFileStructure = Sprintf ''mkfs.xfs /dev/%sp1'' [volumeName];
           (err, tr5) = invoke_err cl (ExecuteCommand (NewCommand v makeFileStructure [])) tr4
       in case err of
         Some e \<Rightarrow> (Some (fmt_Errorf_w ''failed to make mkfs file structure: %w'' e), tr5)
       | None \<Rightarrow>
          let mountVolume = Sprintf ''mount /dev/%sp1 /mnt'' [volumeName];
              (err, tr6) = invoke_err cl (ExecuteCommand (NewCommand v mountVolume [])) tr5
          in case err of
            Some e \<Rightarrow> (Some (fmt_Errorf_w ''failed to mount /mnt on EBS volume: %w'' e), tr6)
          | None \<Rightarrow>
             let changePermissions = ''chmod 777 /mnt'';
                 (err, tr7) =
                   invoke_err cl (ExecuteCommand (NewCommand v changePermissions [])) tr6
             in case err of
               Some e \<Rightarrow>
                 (Some (fmt_Errorf_w ''failed to change permissions on /mnt: %w'' e), tr7)
             | None \<Rightarrow> (None, tr7))
   = run_steps cl (partition_steps v volumeName) tr3"
  by (simp add: partition_steps_def invoke_err_def fmt_Errorf_w_def Let_def split: sum.splits)

lemma checkAndPartitionEBS_at_probe:
  assumes list: "remote (client n) tr (ExecuteCommand (cmd_list_volumes v)) = Inr allVolumes"
    and name: "ExtractLastVolumeName allVolumes = Inr name"
    and check: "remote (client n) (tr @ [Remote (ExecuteCommand (cmd_list_volumes v))])
                  (ExecuteCommand (cmd_check_volume v name)) = Inr out"
  shows "checkAndPartitionEBS v n tr =
     (case remote (client n)
             (tr @ [Remote (ExecuteCommand (cmd_list_volumes v)),
                    Remote (ExecuteCommand (cmd_check_volume v name))])
             (ExecuteCommand (cmd_probe_partition v name)) of
        Inr probe_out \<Rightarrow>
          (None, tr @ [Remote (ExecuteCommand (cmd_list_volumes v)),
                       Remote (ExecuteCommand (cmd_check_volume v name)),
                       Remote (ExecuteCommand (cmd_probe_partition v name))])
      | Inl probe_err \<Rightarrow>
          run_steps (client n) (partition_steps v name)
            (tr @ [Remote (ExecuteCommand (cmd_list_volumes v)),
                   Remote (ExecuteCommand (cmd_check_volume v name)),
                   Remote (ExecuteCommand (cmd_probe_partition v name))]))"
proof -
  have l: "remote (client n) tr
             (ExecuteCommand (NewCommand v ''lsblk -o NAME,SIZE,TYPE,MOUNTPOINT'' [])) = Inr allVolumes"
    using list by (simp add: cmd_list_volumes_def)
  have c: "remote (client n)
             (tr @ [Remote (ExecuteCommand (NewCommand v ''lsblk -o NAME,SIZE,TYPE,MOUNTPOINT'' []))])
             (ExecuteCommand (NewCommand v (''lsblk | grep '' @ name) [])) = Inr out"
    using check by (simp add: cmd_list_volumes_def cmd_check_volume_def)
  show ?thesis
    unfolding checkAndPartitionEBS_def partition_tail
    using l c name
    by (simp add: invoke_def invoke_err_def Let_def cmd_list_volumes_def cmd_check_volume_def
        cmd_probe_partition_def del: run_steps.simps split: sum.splits)
qed

lemma run_steps_extends: "\<exists>rest. snd (run_steps cl steps tr) = tr @ rest"
proof (induction steps arbitrary: tr)
  case Nil
  show ?case by simp
next
  case (Cons st steps)
  obtain ev report where st: "st = (ev, report)" by (cases st)
  show ?case
  proof (cases ev)
    case (Remote c)
    show ?thesis
    proof (cases "remote cl tr c")
      case (Inl e)
      then show ?thesis by (simp add: st Remote)
    next
      case (Inr out)
      from Cons.IH [of "tr @ [Remote c]"] obtain rest
        where "snd (run_steps cl steps (tr @ [Remote c])) = (tr @ [Remote c]) @ rest" ..
      then show ?thesis by (simp add: st Remote Inr)
    qed
  next
    case (Sleep d)
    from Cons.IH [of "tr @ [Sleep d]"] obtain rest
      where "snd (run_steps cl steps (tr @ [Sleep d])) = (tr @ [Sleep d]) @ rest" ..
    then show ?thesis by (simp add: st Sleep)
  qed
qed

text \<open>
  C4. Once the listing, the choice of the volume and the volume check have succeeded,
  the probe for the partition decides. When the probe succeeds, \<open>checkAndPartitionEBS\<close>
  returns no error and the probe is its last remote command. When the probe fails, it
  runs the four steps of \<open>partition_steps\<close> fail-fast and in order: partition the whole
  disk, make the filesystem, mount it at \<open>/mnt\<close>, \<open>chmod 777 /mnt\<close>; when all four
  succeed it returns no error, and the first that fails ends the operation with that
  step's wrapped error and no later command.
\<close>

theorem C4_probe_decides:
  assumes list: "remote (client n) tr (ExecuteCommand (cmd_list_volumes v)) = Inr allVolumes"
    and name: "ExtractLastVolumeName allVolumes = Inr name"
    and check: "remote (client n) (tr @ [Remote (ExecuteCommand (cmd_list_volumes v))])
                  (ExecuteCommand (cmd_check_volume v name)) = Inr out"
    and at_probe: "at_probe = tr @ [Remote (ExecuteCommand (cmd_list_volumes v)),
                                   Remote (ExecuteCommand (cmd_check_volume v name))]"
    and probed: "probed = at_probe @ [Remote (ExecuteCommand (cmd_probe_partition v name))]"
  shows
    "(remote (client n) at_probe (ExecuteCommand (cmd_probe_partition v name)) = Inr probe_out \<longrightarrow>
        checkAndPartitionEBS v n tr = (None, probed))
     \<and> (remote (client n) at_probe (ExecuteCommand (cmd_probe_partition v name)) = Inl probe_err \<longrightarrow>
          checkAndPartitionEBS v n tr = run_steps (client n) (partition_steps v name) probed
          \<and> (all_succeed (client n) probed (map fst (partition_steps v name)) \<longrightarrow>
               checkAndPartitionEBS v n tr = (None, probed @ map fst (partition_steps v name)))
          \<and> (\<forall>k c report e.
               k < length (partition_steps v name) \<longrightarrow>
               all_succeed (client n) probed (map fst (take k (partition_steps v name))) \<longrightarrow>
               partition_steps v name ! k = (Remote c, report) \<longrightarrow>
               remote (client n) (probed @ map fst (take k (partition_steps v name))) c = Inl e \<longrightarrow>
               checkAndPartitionEBS v n tr =
                 (Some (report e), probed @ map fst (take (Suc k) (partition_steps v name)))))"
proof (intro conjI impI allI)
  assume "remote (client n) at_probe (ExecuteCommand (cmd_probe_partition v name)) = Inr probe_out"
  then show "checkAndPartitionEBS v n tr = (None, probed)"
    using checkAndPartitionEBS_at_probe [OF list name check] by (simp add: at_probe probed)
next
  assume "remote (client n) at_probe (ExecuteCommand (cmd_probe_partition v name)) = Inl probe_err"
  then show run: "checkAndPartitionEBS v n tr = run_steps (client n) (partition_steps v name) probed"
    using checkAndPartitionEBS_at_probe [OF list name check]
    by (simp add: at_probe probed del: run_steps.simps)
  {
    assume "all_succeed (client n) probed (map fst (partition_steps v name))"
    then show "checkAndPartitionEBS v n tr = (None, probed @ map fst (partition_steps v name))"
      unfolding run by (rule run_steps_all_succeed)
  }
  {
    fix k c report e
    assume "k < length (partition_steps v name)"
      and "all_succeed (client n) probed (map fst (take k (partition_steps v name)))"
      and "partition_steps v name ! k = (Remote c, report)"
      and "remote (client n) (probed @ map fst (take k (partition_steps v name))) c = Inl e"
    then show "checkAndPartitionEBS v n tr =
                 (Some (report e), probed @ map fst (take (Suc k) (partition_steps v name)))"
      unfolding run by (rule run_steps_first_failure)
  }
qed

text \<open>
  C10. After the listing has succeeded and a volume name has been chosen, the next remote
  command is the volume check \<open>lsblk | grep name\<close>. When it fails the operation ends
  there with the error \<open>failed to check for EBS volume\<close> wrapping the failure, before
  the probe; when it succeeds the probe for the partition is the command after it.
\<close>

theorem C10_volume_check:
  assumes list: "remote (client n) tr (ExecuteCommand (cmd_list_volumes v)) = Inr allVolumes"
    and name: "ExtractLastVolumeName allVolumes = Inr name"
  shows
    "(remote (client n) (tr @ [Remote (ExecuteCommand (cmd_list_volumes v))])
        (ExecuteCommand (cmd_check_volume v name)) = Inl e \<longrightarrow>
        checkAndPartitionEBS v n tr =
          (Some (WrapError (''failed to check for EBS volume: '' @ Error e) e),
           tr @ [Remote (ExecuteCommand (cmd_list_volumes v)),
                 Remote (ExecuteCommand (cmd_check_volume v name))]))
     \<and> (remote (client n) (tr @ [Remote (ExecuteCommand (cmd_list_volumes v))])
          (ExecuteCommand (cmd_check_volume v name)) = Inr out \<longrightarrow>
          (\<exists>rest. snd (checkAndPartitionEBS v n tr) =
             tr @ [Remote (ExecuteCommand (cmd_list_volumes v)),
                   Remote (ExecuteCommand (cmd_check_volume v name)),
                   Remote (ExecuteCommand (cmd_probe_partition v name))] @ rest))"
proof (intro conjI impI)
  assume fails: "remote (client n) (tr @ [Remote (ExecuteCommand (cmd_list_volumes v))])
        (ExecuteCommand (cmd_check_volume v name)) = Inl e"
  have l: "remote (client n) tr
             (ExecuteCommand (NewCommand v ''lsblk -o NAME,SIZE,TYPE,MOUNTPOINT'' [])) = Inr allVolumes"
    using list by (simp add: cmd_list_volumes_def)
  have c: "remote (client n)
             (tr @ [Remote (ExecuteCommand (NewCommand v ''lsblk -o NAME,SIZE,TYPE,MOUNTPOINT'' []))])
             (ExecuteCommand (NewCommand v (''lsblk | grep '' @ name) [])) = Inl e"
    using fails by (simp add: cmd_list_volumes_def cmd_check_volume_def)
  show "checkAndPartitionEBS v n tr =
          (Some (WrapError (''failed to check for EBS volume: '' @ Error e) e),
           tr @ [Remote (ExecuteCommand (cmd_list_volumes v)),
                 Remote (ExecuteCommand (cmd_check_volume v name))])"
    unfolding checkAndPartitionEBS_def partition_tail
    using l c name
    by (simp add: invoke_def invoke_err_def Let_def cmd_list_volumes_def cmd_check_volume_def
        fmt_Errorf_w_def del: run_steps.simps)
next
  let ?probed = "tr @ [Remote (ExecuteCommand (cmd_list_volumes v)),
                   Remote (ExecuteCommand (cmd_check_volume v name)),
                   Remote (ExecuteCommand (cmd_probe_partition v name))]"
  assume check: "remote (client n) (tr @ [Remote (ExecuteCommand (cmd_list_volumes v))])
          (ExecuteCommand (cmd_check_volume v name)) = Inr out"
  from run_steps_extends [of "client n" "partition_steps v name" ?probed]
  obtain rest where rest: "snd (run_steps (client n) (partition_steps v name) ?probed) = ?probed @ rest" ..
  show "\<exists>rest. snd (checkAndPartitionEBS v n tr) = 
             tr @ [Remote (ExecuteCommand (cmd_list_volumes v)),
                   Remote (ExecuteCommand (cmd_check_volume v name)),
                   Remote (ExecuteCommand (cmd_probe_partition v name))] @ rest"
  proof (cases "remote (client n)
             (tr @ [Remote (ExecuteCommand (cmd_list_volumes v)),
                    Remote (ExecuteCommand (cmd_check_volume v name))])
             (ExecuteCommand (cmd_probe_partition v name))")
    case (Inl probe_err)
    then have "snd (checkAndPartitionEBS v n tr) = ?probed @ rest"
      using checkAndPartitionEBS_at_probe [OF list name check] rest
      by (simp del: run_steps.simps)
    then show ?thesis by simp
  next
    case (Inr probe_out)
    then have "snd (checkAndPartitionEBS v n tr) = ?probed @ []"
      using checkAndPartitionEBS_at_probe [OF list name check] by simp
    then show ?thesis by (intro exI [of _ "[]"]) simp
  qed
qed

lemma listing_A_name: "ExtractLastVolumeName listing_A = Inr ''nvme1n1''"
  by code_simp

lemma cmd_list_volumes_Sprintf:
  "cmd_list_volumes value_Sprintf = ''lsblk -o NAME,SIZE,TYPE,MOUNTPOINT''"
  by (simp add: cmd_list_volumes_def value_Sprintf_def)

lemma cmd_check_volume_Sprintf:
  "cmd_check_volume value_Sprintf ''nvme1n1'' = ''lsblk | grep nvme1n1''"
  by (simp add: cmd_check_volume_def value_Sprintf_def)

lemma cmd_probe_partition_Sprintf:
  "cmd_probe_partition value_Sprintf ''nvme1n1'' = ''lsblk /dev/nvme1n1 | grep /dev/nvme1n1p1''"
  by (simp add: cmd_probe_partition_def value_Sprintf_def)

lemma partition_steps_Sprintf:
  "map fst (partition_steps value_Sprintf ''nvme1n1'') =
     [Remote (ExecuteCommand (''echo ',,,;' | sfdisk /dev/nvme1n1'')),
      Remote (ExecuteCommand ''mkfs.xfs /dev/nvme1n1p1''),
      Remote (ExecuteCommand ''mount /dev/nvme1n1p1 /mnt''),
      Remote (ExecuteCommand ''chmod 777 /mnt'')]"
  by (simp add: partition_steps_def value_Sprintf_def)

lemmas sequencer_commands =
  cmd_list_volumes_Sprintf cmd_check_volume_Sprintf cmd_probe_partition_Sprintf

theorem C4_probe_decides_witness:
  "ExtractLastVolumeName listing_A = Inr ''nvme1n1''
   \<and> checkAndPartitionEBS value_Sprintf (node_on host_partitioned [] []) [] =
       (None,
        [Remote (ExecuteCommand ''lsblk -o NAME,SIZE,TYPE,MOUNTPOINT''),
         Remote (ExecuteCommand ''lsblk | grep nvme1n1''),
         Remote (ExecuteCommand ''lsblk /dev/nvme1n1 | grep /dev/nvme1n1p1'')])
   \<and> checkAndPartitionEBS value_Sprintf (node_on host_new_disk [] []) [] =
       (None,
        [Remote (ExecuteCommand ''lsblk -o NAME,SIZE,TYPE,MOUNTPOINT''),
         Remote (ExecuteCommand ''lsblk | grep nvme1n1''),
         Remote (ExecuteCommand ''lsblk /dev/nvme1n1 | grep /dev/nvme1n1p1''),
         Remote (ExecuteCommand (''echo ',,,;' | sfdisk /dev/nvme1n1'')),
         Remote (ExecuteCommand ''mkfs.xfs /dev/nvme1n1p1''),
         Remote (ExecuteCommand ''mount /dev/nvme1n1p1 /mnt''),
         Remote (ExecuteCommand ''chmod 777 /mnt'')])
   \<and> checkAndPartitionEBS value_Sprintf (node_on host_format_fails [] []) [] =
       (Some (WrapError ''failed to make mkfs file structure: Process exited with status 1''
                (ErrorString ''Process exited with status 1'')),
        [Remote (ExecuteCommand ''lsblk -o NAME,SIZE,TYPE,MOUNTPOINT''),
         Remote (ExecuteCommand ''lsblk | grep nvme1n1''),
         Remote (ExecuteCommand ''lsblk /dev/nvme1n1 | grep /dev/nvme1n1p1''),
         Remote (ExecuteCommand (''echo ',,,;' | sfdisk /dev/nvme1n1'')),
         Remote (ExecuteCommand ''mkfs.xfs /dev/nvme1n1p1'')])"
proof -
  let ?v = value_Sprintf
  let ?done = "node_on host_partitioned [] []"
  let ?new = "node_on host_new_disk [] []"
  let ?bad = "node_on host_format_fails [] []"
  let ?e = "ErrorString ''Process exited with status 1''"
  let ?probed = "[Remote (ExecuteCommand ''lsblk -o NAME,SIZE,TYPE,MOUNTPOINT''),
         Remote (ExecuteCommand ''lsblk | grep nvme1n1''),
         Remote (ExecuteCommand ''lsblk /dev/nvme1n1 | grep /dev/nvme1n1p1'')]"
  note hosts = node_on_def scripted_def host_partitioned_def host_new_disk_def
    host_format_fails_def
  \<comment> \<open>the host whose volume is already partitioned\<close>
  have list1: "remote (client ?done) [] (ExecuteCommand (cmd_list_volumes ?v)) = Inr listing_A"
    by (simp add: hosts sequencer_commands)
  have check1: "remote (client ?done) ([] @ [Remote (ExecuteCommand (cmd_list_volumes ?v))])
                  (ExecuteCommand (cmd_check_volume ?v ''nvme1n1'')) = Inr []"
    by (simp add: hosts sequencer_commands)
  have probe1: "remote (client ?done)
                  ([] @ [Remote (ExecuteCommand (cmd_list_volumes ?v)),
                         Remote (ExecuteCommand (cmd_check_volume ?v ''nvme1n1''))])
                  (ExecuteCommand (cmd_probe_partition ?v ''nvme1n1'')) = Inr []"
    by (simp add: hosts sequencer_commands)
  from C4_probe_decides [OF list1 listing_A_name check1 refl refl, of "[]" ?e] probe1
  have r1: "checkAndPartitionEBS ?v ?done [] =
              (None, ([] @ [Remote (ExecuteCommand (cmd_list_volumes ?v)),
                            Remote (ExecuteCommand (cmd_check_volume ?v ''nvme1n1''))])
                     @ [Remote (ExecuteCommand (cmd_probe_partition ?v ''nvme1n1''))])"
    by blast
  \<comment> \<open>the host with a new disk\<close>
  have list2: "remote (client ?new) [] (ExecuteCommand (cmd_list_volumes ?v)) = Inr listing_A"
    by (simp add: hosts sequencer_commands)
  have check2: "remote (client ?new) ([] @ [Remote (ExecuteCommand (cmd_list_volumes ?v))])
                  (ExecuteCommand (cmd_check_volume ?v ''nvme1n1'')) = Inr []"
    by (simp add: hosts sequencer_commands)
  have probe2: "remote (client ?new)
                  ([] @ [Remote (ExecuteCommand (cmd_list_volumes ?v)),
                         Remote (ExecuteCommand (cmd_check_volume ?v ''nvme1n1''))])
                  (ExecuteCommand (cmd_probe_partition ?v ''nvme1n1'')) = Inl ?e"
    by (simp add: hosts sequencer_commands)
  have all2: "all_succeed (client ?new)
                (([] @ [Remote (ExecuteCommand (cmd_list_volumes ?v)),
                        Remote (ExecuteCommand (cmd_check_volume ?v ''nvme1n1''))])
                 @ [Remote (ExecuteCommand (cmd_probe_partition ?v ''nvme1n1''))])
                (map fst (partition_steps ?v ''nvme1n1''))"
    unfolding partition_steps_Sprintf by (simp add: hosts sequencer_commands)
  from C4_probe_decides [OF list2 listing_A_name check2 refl refl, of "[]" ?e] probe2 all2
  have r2: "checkAndPartitionEBS ?v ?new [] =
              (None, (([] @ [Remote (ExecuteCommand (cmd_list_volumes ?v)),
                             Remote (ExecuteCommand (cmd_check_volume ?v ''nvme1n1''))])
                      @ [Remote (ExecuteCommand (cmd_probe_partition ?v ''nvme1n1''))])
                     @ map fst (partition_steps ?v ''nvme1n1''))"
    by blast
  \<comment> \<open>the host on which formatting fails\<close>
  have list3: "remote (client ?bad) [] (ExecuteCommand (cmd_list_volumes ?v)) = Inr listing_A"
    by (simp add: hosts sequencer_commands)
  have check3: "remote (client ?bad) ([] @ [Remote (ExecuteCommand (cmd_list_volumes ?v))])
                  (ExecuteCommand (cmd_check_volume ?v ''nvme1n1'')) = Inr []"
    by (simp add: hosts sequencer_commands)
  have probe3: "remote (client ?bad)
                  ([] @ [Remote (ExecuteCommand (cmd_list_volumes ?v)),
                         Remote (ExecuteCommand (cmd_check_volume ?v ''nvme1n1''))])
                  (ExecuteCommand (cmd_probe_partition ?v ''nvme1n1'')) = Inl ?e"
    by (simp add: hosts sequencer_commands)
  have len3: "1 < length (partition_steps ?v ''nvme1n1'')"
    by (simp add: partition_steps_def)
  have pre3: "map fst (take 1 (partition_steps ?v ''nvme1n1'')) =
                [Remote (ExecuteCommand (''echo ',,,;' | sfdisk /dev/nvme1n1''))]"
    by (simp add: partition_steps_def value_Sprintf_def)
  have upto3: "map fst (take (Suc 1) (partition_steps ?v ''nvme1n1'')) =
                [Remote (ExecuteCommand (''echo ',,,;' | sfdisk /dev/nvme1n1'')),
                 Remote (ExecuteCommand ''mkfs.xfs /dev/nvme1n1p1'')]"
    by (simp add: partition_steps_def value_Sprintf_def)
  have before3: "all_succeed (client ?bad)
                (([] @ [Remote (ExecuteCommand (cmd_list_volumes ?v)),
                        Remote (ExecuteCommand (cmd_check_volume ?v ''nvme1n1''))])
                 @ [Remote (ExecuteCommand (cmd_probe_partition ?v ''nvme1n1''))])
                (map fst (take 1 (partition_steps ?v ''nvme1n1'')))"
    unfolding pre3 by (simp add: hosts sequencer_commands)
  have at3: "partition_steps ?v ''nvme1n1'' ! 1 =
               (Remote (ExecuteCommand ''mkfs.xfs /dev/nvme1n1p1''),
                \<lambda>e. WrapError (''failed to make mkfs file structure: '' @ Error e) e)"
    by (simp add: partition_steps_def value_Sprintf_def)
  have fails3: "remote (client ?bad)
                ((([] @ [Remote (ExecuteCommand (cmd_list_volumes ?v)),
                        Remote (ExecuteCommand (cmd_check_volume ?v ''nvme1n1''))])
                 @ [Remote (ExecuteCommand (cmd_probe_partition ?v ''nvme1n1''))])
                 @ map fst (take 1 (partition_steps ?v ''nvme1n1'')))
                (ExecuteCommand ''mkfs.xfs /dev/nvme1n1p1'') = Inl ?e"
    unfolding pre3 by (simp add: hosts sequencer_commands)
  from C4_probe_decides [OF list3 listing_A_name check3 refl refl, of "[]" ?e]
    probe3 len3 before3 at3 fails3
  have r3: "checkAndPartitionEBS ?v ?bad [] =
              (Some (WrapError (''failed to make mkfs file structure: '' @ Error ?e) ?e),
               (([] @ [Remote (ExecuteCommand (cmd_list_volumes ?v)),
                       Remote (ExecuteCommand (cmd_check_volume ?v ''nvme1n1''))])
                @ [Remote (ExecuteCommand (cmd_probe_partition ?v ''nvme1n1''))])
               @ map fst (take (Suc 1) (partition_steps ?v ''nvme1n1'')))"
    by blast
  show ?thesis
  proof (intro conjI)
    show "ExtractLastVolumeName listing_A = Inr ''nvme1n1''" by (rule listing_A_name)
    show "checkAndPartitionEBS ?v ?done [] = (None, ?probed)"
      using r1 by (simp add: sequencer_commands)
    show "checkAndPartitionEBS ?v ?new [] =
       (None,
        [Remote (ExecuteCommand ''lsblk -o NAME,SIZE,TYPE,MOUNTPOINT''),
         Remote (ExecuteCommand ''lsblk | grep nvme1n1''),
         Remote (ExecuteCommand ''lsblk /dev/nvme1n1 | grep /dev/nvme1n1p1''),
         Remote (ExecuteCommand (''echo ',,,;' | sfdisk /dev/nvme1n1'')),
         Remote (ExecuteCommand ''mkfs.xfs /dev/nvme1n1p1''),
         Remote (ExecuteCommand ''mount /dev/nvme1n1p1 /mnt''),
         Remote (ExecuteCommand ''chmod 777 /mnt'')])"
      using r2 by (simp add: sequencer_commands partition_steps_Sprintf)
    show "checkAndPartitionEBS ?v ?bad [] =
       (Some (WrapError ''failed to make mkfs file structure: Process exited with status 1'' ?e),
        [Remote (ExecuteCommand ''lsblk -o NAME,SIZE,TYPE,MOUNTPOINT''),
         Remote (ExecuteCommand ''lsblk | grep nvme1n1''),
         Remote (ExecuteCommand ''lsblk /dev/nvme1n1 | grep /dev/nvme1n1p1''),
         Remote (ExecuteCommand (''echo ',,,;' | sfdisk /dev/nvme1n1'')),
         Remote (ExecuteCommand ''mkfs.xfs /dev/nvme1n1p1'')])"
      using r3 unfolding upto3 by (simp add: sequencer_commands)
  qed
qed

theorem C10_volume_check_witness:
  "checkAndPartitionEBS value_Sprintf (node_on host_volume_gone [] []) [] =
     (Some (WrapError ''failed to check for EBS volume: Process exited with status 1''
              (ErrorString ''Process exited with status 1'')),
      [Remote (ExecuteCommand ''lsblk -o NAME,SIZE,TYPE,MOUNTPOINT''),
       Remote (ExecuteCommand ''lsblk | grep nvme1n1'')])
   \<and> take 3 (snd (checkAndPartitionEBS value_Sprintf (node_on host_new_disk [] []) [])) =
       [Remote (ExecuteCommand ''lsblk -o NAME,SIZE,TYPE,MOUNTPOINT''),
        Remote (ExecuteCommand ''lsblk | grep nvme1n1''),
        Remote (ExecuteCommand ''lsblk /dev/nvme1n1 | grep /dev/nvme1n1p1'')]"
proof -
  let ?v = value_Sprintf
  let ?gone = "node_on host_volume_gone [] []"
  let ?new = "node_on host_new_disk [] []"
  let ?e = "ErrorString ''Process exited with status 1''"
  note hosts = node_on_def scripted_def host_volume_gone_def host_new_disk_def
  have list1: "remote (client ?gone) [] (ExecuteCommand (cmd_list_volumes ?v)) = Inr listing_A"
    by (simp add: hosts sequencer_commands)
  have check1: "remote (client ?gone) ([] @ [Remote (ExecuteCommand (cmd_list_volumes ?v))])
                  (ExecuteCommand (cmd_check_volume ?v ''nvme1n1'')) = Inl ?e"
    by (simp add: hosts sequencer_commands)
  from C10_volume_check [OF list1 listing_A_name, of ?e "[]"] check1
  have r1: "checkAndPartitionEBS ?v ?gone [] =
          (Some (WrapError (''failed to check for EBS volume: '' @ Error ?e) ?e),
           [] @ [Remote (ExecuteCommand (cmd_list_volumes ?v)),
                 Remote (ExecuteCommand (cmd_check_volume ?v ''nvme1n1''))])"
    by blast
  have list2: "remote (client ?new) [] (ExecuteCommand (cmd_list_volumes ?v)) = Inr listing_A"
    by (simp add: hosts sequencer_commands)
  have check2: "remote (client ?new) ([] @ [Remote (ExecuteCommand (cmd_list_volumes ?v))])
                  (ExecuteCommand (cmd_check_volume ?v ''nvme1n1'')) = Inr []"
    by (simp add: hosts sequencer_commands)
  from C10_volume_check [OF list2 listing_A_name, of ?e "[]"] check2
  obtain rest where "snd (checkAndPartitionEBS ?v ?new []) =
             [] @ [Remote (ExecuteCommand (cmd_list_volumes ?v)),
                   Remote (ExecuteCommand (cmd_check_volume ?v ''nvme1n1'')),
                   Remote (ExecuteCommand (cmd_probe_partition ?v ''nvme1n1''))] @ rest"
    by blast
  then have r2: "take 3 (snd (checkAndPartitionEBS ?v ?new [])) =
       [Remote (ExecuteCommand (cmd_list_volumes ?v)),
        Remote (ExecuteCommand (cmd_check_volume ?v ''nvme1n1'')),
        Remote (ExecuteCommand (cmd_probe_partition ?v ''nvme1n1''))]"
    by simp
  from r1 r2 show ?thesis by (simp add: sequencer_commands)
qed

end
